theory Spec2Isabelle
  imports Main "HOL-Library.Multiset"
begin

section \<open>JavaScript values and the built-ins the program calls\<close>

text \<open>
  The harness is a TypeScript program; its types are erased at run time and the data it
  inspects (the parsed feature list, the parsed tool results) comes from outside, so the
  model works on dynamic values. A string is a list of characters, one \<^typ>\<open>char\<close> for one
  UTF-16 code unit, so \<^const>\<open>length\<close> is \<^verbatim>\<open>.length\<close> and \<^const>\<open>take\<close> is
  \<^verbatim>\<open>.slice(0, n)\<close> (the alphabet of \<^typ>\<open>char\<close> is smaller than JavaScript's; no
  definition depends on its size). The type \<open>'n\<close> stands for the numbers (IEEE doubles) that occur inside
  parsed JSON; the program never computes with them, it only tests and prints them.
\<close>

datatype 'n js =
    JUndefined
  | JNull
  | JBool bool
  | JNum 'n
  | JStr string
  | JArr "'n js list"
  | JObj "(string \<times> 'n js) list"

text \<open>
  A thrown value: an \<^verbatim>\<open>Error\<close> instance with its message and stack, or any other value
  (as \<^verbatim>\<open>console.error\<close> prints it).
\<close>

datatype exn = JsError (message: string) (stack: string) | Thrown string

text \<open>
  The built-ins of the JavaScript engine and of Node that the program calls; they are not
  code of the repository, so every definition below takes them as a parameter.
  \<^item> \<open>JSON_parse\<close>: \<^verbatim>\<open>JSON.parse\<close> of a string; \<open>Inl\<close> the \<^verbatim>\<open>SyntaxError\<close> it throws.
  \<^item> \<open>JSON_stringify\<close>: \<^verbatim>\<open>JSON.stringify\<close>; \<open>None\<close> when it returns \<^verbatim>\<open>undefined\<close>.
  \<^item> \<open>parseInt\<close>: \<^verbatim>\<open>parseInt(s, 10)\<close>; \<open>None\<close> is \<^verbatim>\<open>NaN\<close>. The integers are exact:
    the model does not round a bound beyond \<open>2\<^sup>5\<^sup>3\<close> to a double.
  \<^item> \<open>resolve\<close>: \<^verbatim>\<open>path.resolve\<close> of its arguments.
  \<^item> \<open>num_to_string\<close>, \<open>num_truthy\<close>, \<open>num_gt\<close>: \<^verbatim>\<open>String(x)\<close>, \<^verbatim>\<open>Boolean(x)\<close> and
    \<^verbatim>\<open>x > n\<close> for a number \<open>x\<close>.
  \<^item> \<open>str_gt\<close>: \<^verbatim>\<open>s > n\<close> for a string \<open>s\<close> (the string is converted to a number).
  \<^item> \<open>type_error\<close>: the \<^verbatim>\<open>TypeError\<close> the engine throws when the named expression
    cannot be evaluated.
\<close>

record 'n runtime =
  JSON_parse :: "string \<Rightarrow> exn + 'n js"
  JSON_stringify :: "'n js \<Rightarrow> string option"
  parseInt :: "string \<Rightarrow> int option"
  resolve :: "string list \<Rightarrow> string"
  num_to_string :: "'n \<Rightarrow> string"
  num_truthy :: "'n \<Rightarrow> bool"
  num_gt :: "'n \<Rightarrow> nat \<Rightarrow> bool"
  str_gt :: "string \<Rightarrow> nat \<Rightarrow> bool"
  type_error :: "string \<Rightarrow> exn"

text \<open>\<^verbatim>\<open>Boolean(v)\<close>: the values that count as false are \<^verbatim>\<open>undefined\<close>, \<^verbatim>\<open>null\<close>,
  \<^verbatim>\<open>false\<close>, the numbers \<^verbatim>\<open>0\<close> and \<^verbatim>\<open>NaN\<close>, and the empty string.\<close>

fun truthy :: "'n runtime \<Rightarrow> 'n js \<Rightarrow> bool" where
  "truthy rt JUndefined = False"
| "truthy rt JNull = False"
| "truthy rt (JBool b) = b"
| "truthy rt (JNum n) = num_truthy rt n"
| "truthy rt (JStr s) = (s \<noteq> [])"
| "truthy rt (JArr xs) = True"
| "truthy rt (JObj kvs) = True"

text \<open>
  \<^verbatim>\<open>v.k\<close> for one of the property names the program reads (\<^verbatim>\<open>features\<close>,
  \<^verbatim>\<open>passes\<close>, \<^verbatim>\<open>text\<close>, \<^verbatim>\<open>output\<close>): none of them is provided by a prototype, so only
  an object that has the key yields a value; \<^verbatim>\<open>undefined\<close> and \<^verbatim>\<open>null\<close> throw.
\<close>

fun get_prop :: "'n runtime \<Rightarrow> 'n js \<Rightarrow> string \<Rightarrow> exn + 'n js" where
  "get_prop rt JUndefined k = Inl (type_error rt k)"
| "get_prop rt JNull k = Inl (type_error rt k)"
| "get_prop rt (JObj kvs) k = (case map_of kvs k of None \<Rightarrow> Inr JUndefined | Some v \<Rightarrow> Inr v)"
| "get_prop rt v k = Inr JUndefined"

section \<open>Output and control\<close>

text \<open>
  What the program prints is kept as a list of effects in program order. A line is a list of
  segments: literal text, a number printed by a template literal (\<open>None\<close> prints
  \<^verbatim>\<open>NaN\<close>), a parsed number, a number printed with \<^verbatim>\<open>toFixed\<close>, and text wrapped by one
  of the colour functions of \<^verbatim>\<open>picocolors\<close>. \<^verbatim>\<open>console.log\<close> and \<^verbatim>\<open>console.error\<close>
  separate several arguments by a space; each argument is one element of the list then.
\<close>

datatype colour = Dim | Yellow | Green | Red | Cyan | Magenta | Blue

datatype 'n seg =
    Txt string
  | Number "int option"
  | Fixed 'n nat
  | Styled colour "'n seg list"

datatype 'n effect =
    Log "'n seg list"
  | Err "'n seg list"
  | Write string
  | Sleep nat
  | Spawn "string list"

text \<open>
  A computation prints and then returns a value, throws, or ends the process
  (\<^verbatim>\<open>process.exit\<close>).
\<close>

datatype 'a outcome = Done 'a | Raise exn | Exit nat

type_synonym ('n, 'a) io = "'n effect list \<times> 'a outcome"

definition return :: "'a \<Rightarrow> ('n, 'a) io" where
  "return a = ([], Done a)"

definition throw :: "exn \<Rightarrow> ('n, 'a) io" where
  "throw e = ([], Raise e)"

definition emit :: "'n effect \<Rightarrow> ('n, unit) io" where
  "emit x = ([x], Done ())"

definition bind :: "('n, 'a) io \<Rightarrow> ('a \<Rightarrow> ('n, 'b) io) \<Rightarrow> ('n, 'b) io" where
  "bind m f =
     (case m of
        (out, Done a) \<Rightarrow> (case f a of (out', r) \<Rightarrow> (out @ out', r))
      | (out, Raise e) \<Rightarrow> (out, Raise e)
      | (out, Exit c) \<Rightarrow> (out, Exit c))"

text \<open>\<^verbatim>\<open>try { m } catch (e) { h e }\<close>; leaving the process is not caught.\<close>

definition catch :: "('n, 'a) io \<Rightarrow> (exn \<Rightarrow> ('n, 'a) io) \<Rightarrow> ('n, 'a) io" where
  "catch m h =
     (case m of
        (out, Raise e) \<Rightarrow> (case h e of (out', r) \<Rightarrow> (out @ out', r))
      | (out, r) \<Rightarrow> (out, r))"

text \<open>\<^verbatim>\<open>for (const x of xs) body\<close>.\<close>

fun foreach :: "'a list \<Rightarrow> ('a \<Rightarrow> ('n, unit) io) \<Rightarrow> ('n, unit) io" where
  "foreach [] body = return ()"
| "foreach (x # xs) body = bind (body x) (\<lambda>_. foreach xs body)"

section \<open>Progress tracker\<close>

text \<open>
  The part of the file system the program probes: a path is missing, or it exists and
  \<^verbatim>\<open>readFileSync\<close> either throws (a directory, a file without read permission) or
  returns the decoded text.
\<close>

datatype node = Missing | Exists "exn + string"

type_synonym fs = "string \<Rightarrow> node"

definition existsSync :: "fs \<Rightarrow> string \<Rightarrow> bool" where
  "existsSync files p = (files p \<noteq> Missing)"

definition readFileSync :: "fs \<Rightarrow> string \<Rightarrow> exn + string" where
  "readFileSync files p =
     (case files p of Missing \<Rightarrow> Inl (JsError ''ENOENT'' []) | Exists r \<Rightarrow> r)"

text \<open>
  \<^verbatim>\<open>readFeatureList\<close>: the result is the parsed value (the cast to \<^verbatim>\<open>FeatureList\<close> checks
  nothing) or \<^verbatim>\<open>null\<close>; whatever the \<^verbatim>\<open>try\<close> block throws is answered by the
  diagnostic and \<^verbatim>\<open>null\<close>.
\<close>

definition readFeatureList :: "'n runtime \<Rightarrow> fs \<Rightarrow> string \<Rightarrow> ('n, 'n js) io" where
  "readFeatureList rt files dir =
     (let featureFile = resolve rt [dir, ''feature_list.json''] in
      if \<not> existsSync files featureFile then return JNull
      else
        catch
          (case readFileSync files featureFile of
             Inl e \<Rightarrow> throw e
           | Inr content \<Rightarrow>
               (case JSON_parse rt content of
                  Inl e \<Rightarrow> throw e
                | Inr v \<Rightarrow> return v))
          (\<lambda>_. bind (emit (Err [Txt ''Failed to parse feature_list.json''])) (\<lambda>_. return JNull)))"

definition planExists :: "'n runtime \<Rightarrow> fs \<Rightarrow> string \<Rightarrow> bool" where
  "planExists rt files dir = existsSync files (resolve rt [dir, ''plan.md''])"

record progress =
  passing :: nat
  total :: nat

text \<open>
  The callback of \<^verbatim>\<open>filter\<close>, \<^verbatim>\<open>(f) => f.passes\<close>, run over the elements in order: it
  throws at the first element that is \<^verbatim>\<open>null\<close>.
\<close>

fun filter_passes :: "'n runtime \<Rightarrow> 'n js list \<Rightarrow> exn + 'n js list" where
  "filter_passes rt [] = Inr []"
| "filter_passes rt (f # fs) =
     (case get_prop rt f ''passes'' of
        Inl e \<Rightarrow> Inl e
      | Inr p \<Rightarrow>
          (case filter_passes rt fs of
             Inl e \<Rightarrow> Inl e
           | Inr kept \<Rightarrow> Inr (if truthy rt p then f # kept else kept)))"

text \<open>
  \<^verbatim>\<open>getProgress\<close>: \<^verbatim>\<open>features.features.length\<close>, then
  \<^verbatim>\<open>features.features.filter((f) => f.passes).length\<close>. Only an array has \<^verbatim>\<open>filter\<close>;
  on any other value one of the two expressions throws a \<^verbatim>\<open>TypeError\<close>.
\<close>

definition getProgress :: "'n runtime \<Rightarrow> 'n js \<Rightarrow> exn + progress" where
  "getProgress rt features =
     (case get_prop rt features ''features'' of
        Inl e \<Rightarrow> Inl e
      | Inr list \<Rightarrow>
          (case list of
             JArr fs \<Rightarrow>
               (case filter_passes rt fs of
                  Inl e \<Rightarrow> Inl e
                | Inr kept \<Rightarrow> Inr \<lparr>passing = length kept, total = length fs\<rparr>)
           | JUndefined \<Rightarrow> Inl (type_error rt ''features.features.length'')
           | JNull \<Rightarrow> Inl (type_error rt ''features.features.length'')
           | _ \<Rightarrow> Inl (type_error rt ''features.features.filter'')))"

text \<open>
  The interface \<^verbatim>\<open>FeatureList\<close> as a predicate on values: an object whose \<^verbatim>\<open>features\<close>
  is an array of objects with a string \<^verbatim>\<open>category\<close>, a string \<^verbatim>\<open>description\<close>, an array
  of strings \<^verbatim>\<open>steps\<close>, a boolean \<^verbatim>\<open>passes\<close> and a number \<^verbatim>\<open>priority\<close> (other keys
  are allowed, as in TypeScript).
\<close>

fun is_string :: "'n js \<Rightarrow> bool" where
  "is_string (JStr s) = True"
| "is_string v = False"

fun is_boolean :: "'n js \<Rightarrow> bool" where
  "is_boolean (JBool b) = True"
| "is_boolean v = False"

fun is_number :: "'n js \<Rightarrow> bool" where
  "is_number (JNum n) = True"
| "is_number v = False"

fun is_string_array :: "'n js \<Rightarrow> bool" where
  "is_string_array (JArr xs) = list_all is_string xs"
| "is_string_array v = False"

definition has_field :: "(string \<times> 'n js) list \<Rightarrow> string \<Rightarrow> ('n js \<Rightarrow> bool) \<Rightarrow> bool" where
  "has_field kvs k ty = (case map_of kvs k of None \<Rightarrow> False | Some v \<Rightarrow> ty v)"

fun is_Feature :: "'n js \<Rightarrow> bool" where
  "is_Feature (JObj kvs) =
     (has_field kvs ''category'' is_string \<and> has_field kvs ''description'' is_string \<and>
      has_field kvs ''steps'' is_string_array \<and> has_field kvs ''passes'' is_boolean \<and>
      has_field kvs ''priority'' is_number)"
| "is_Feature v = False"

fun is_Feature_array :: "'n js \<Rightarrow> bool" where
  "is_Feature_array (JArr fs) = list_all is_Feature fs"
| "is_Feature_array v = False"

fun is_FeatureList :: "'n js \<Rightarrow> bool" where
  "is_FeatureList (JObj kvs) = has_field kvs ''features'' is_Feature_array"
| "is_FeatureList v = False"

text \<open>The features of a feature list, and the flag of one feature.\<close>

fun features_of :: "'n js \<Rightarrow> 'n js list" where
  "features_of (JObj kvs) = (case map_of kvs ''features'' of Some (JArr fs) \<Rightarrow> fs | _ \<Rightarrow> [])"
| "features_of v = []"

fun passes_flag :: "'n js \<Rightarrow> bool" where
  "passes_flag (JObj kvs) = (map_of kvs ''passes'' = Some (JBool True))"
| "passes_flag v = False"

section \<open>Phase resolver\<close>

datatype AgentPhase = initializer | planner | coder

definition determinePhase :: "'n runtime \<Rightarrow> fs \<Rightarrow> string \<Rightarrow> ('n, AgentPhase) io" where
  "determinePhase rt files dir =
     bind (readFeatureList rt files dir) (\<lambda>featureList.
       if featureList = JNull then return initializer
       else if planExists rt files dir then return coder
       else return planner)"

text \<open>
  The two-phase program has no function for the choice: its \<^verbatim>\<open>main\<close> reads the feature
  list and runs the initializer when the result is \<^verbatim>\<open>null\<close>, the coder otherwise.
\<close>

definition two_phase_choice :: "'n runtime \<Rightarrow> fs \<Rightarrow> string \<Rightarrow> ('n, AgentPhase) io" where
  "two_phase_choice rt files dir =
     bind (readFeatureList rt files dir) (\<lambda>featureList.
       if featureList = JNull then return initializer else return coder)"

section \<open>Rendering of tool calls and tool results\<close>

text \<open>\<^verbatim>\<open>s.includes(p)\<close>: \<open>p\<close> occurs in \<open>s\<close> as a contiguous run.\<close>

fun starts_with :: "string \<Rightarrow> string \<Rightarrow> bool" where
  "starts_with s [] = True"
| "starts_with [] (p # ps) = False"
| "starts_with (c # cs) (p # ps) = (c = p \<and> starts_with cs ps)"

fun str_includes :: "string \<Rightarrow> string \<Rightarrow> bool" where
  "str_includes [] p = (p = [])"
| "str_includes (c # cs) p = (starts_with (c # cs) p \<or> str_includes cs p)"

text \<open>
  The conversion of a value to a string (\<^verbatim>\<open>String(v)\<close>, \<^verbatim>\<open>"" + v\<close>, the argument of
  \<^verbatim>\<open>JSON.parse\<close>). An array is the join of its elements by a comma, where
  \<^verbatim>\<open>undefined\<close> and \<^verbatim>\<open>null\<close> count as empty. An object parsed from JSON is
  \<^verbatim>\<open>[object Object]\<close>, unless it has a key \<^verbatim>\<open>toString\<close> of its own: that value is
  not callable, and the conversion throws.
\<close>

fun to_string :: "'n runtime \<Rightarrow> 'n js \<Rightarrow> exn + string"
  and join_elements :: "'n runtime \<Rightarrow> 'n js list \<Rightarrow> exn + string" where
  "to_string rt JUndefined = Inr ''undefined''"
| "to_string rt JNull = Inr ''null''"
| "to_string rt (JBool b) = Inr (if b then ''true'' else ''false'')"
| "to_string rt (JNum n) = Inr (num_to_string rt n)"
| "to_string rt (JStr s) = Inr s"
| "to_string rt (JArr xs) = join_elements rt xs"
| "to_string rt (JObj kvs) =
     (if map_of kvs ''toString'' \<noteq> None then Inl (type_error rt ''toString'')
      else Inr ''[object Object]'')"
| "join_elements rt [] = Inr []"
| "join_elements rt (x # xs) =
     (case (if x = JUndefined \<or> x = JNull then Inr [] else to_string rt x) of
        Inl e \<Rightarrow> Inl e
      | Inr s \<Rightarrow>
          (if xs = [] then Inr s
           else
             (case join_elements rt xs of
                Inl e \<Rightarrow> Inl e
              | Inr t \<Rightarrow> Inr (s @ '','' @ t))))"

text \<open>\<^verbatim>\<open>v > n\<close> for a parsed value \<open>v\<close> and a number \<open>n\<close>: the value is converted to a
  number; \<^verbatim>\<open>undefined\<close> becomes \<^verbatim>\<open>NaN\<close>, \<^verbatim>\<open>null\<close> becomes 0, a boolean 0 or 1,
  an array or object first its string.\<close>

fun js_gt :: "'n runtime \<Rightarrow> 'n js \<Rightarrow> nat \<Rightarrow> exn + bool" where
  "js_gt rt JUndefined n = Inr False"
| "js_gt rt JNull n = Inr False"
| "js_gt rt (JBool b) n = Inr (b \<and> n = 0)"
| "js_gt rt (JNum x) n = Inr (num_gt rt x n)"
| "js_gt rt (JStr s) n = Inr (str_gt rt s n)"
| "js_gt rt v n = (case to_string rt v of Inl e \<Rightarrow> Inl e | Inr s \<Rightarrow> Inr (str_gt rt s n))"

text \<open>\<^verbatim>\<open>v.length > n\<close>: a string and an array have a length; an object has the value
  of its key \<^verbatim>\<open>length\<close>, if any; a number and a boolean have none, and \<^verbatim>\<open>undefined > n\<close>
  is false; on \<^verbatim>\<open>undefined\<close> and \<^verbatim>\<open>null\<close> the property access throws.\<close>

fun length_gt :: "'n runtime \<Rightarrow> 'n js \<Rightarrow> nat \<Rightarrow> exn + bool" where
  "length_gt rt JUndefined n = Inl (type_error rt ''length'')"
| "length_gt rt JNull n = Inl (type_error rt ''length'')"
| "length_gt rt (JStr s) n = Inr (length s > n)"
| "length_gt rt (JArr xs) n = Inr (length xs > n)"
| "length_gt rt (JObj kvs) n =
     (case map_of kvs ''length'' of None \<Rightarrow> Inr False | Some l \<Rightarrow> js_gt rt l n)"
| "length_gt rt v n = Inr False"

text \<open>\<^verbatim>\<open>v.slice(0, n) + "..."\<close>: a string and an array have \<^verbatim>\<open>slice\<close>; the slice of an
  array is an array, which \<^verbatim>\<open>+\<close> converts to a string; on every other value the call
  throws.\<close>

fun slice_ellipsis :: "'n runtime \<Rightarrow> 'n js \<Rightarrow> nat \<Rightarrow> exn + 'n js" where
  "slice_ellipsis rt (JStr s) n = Inr (JStr (take n s @ ''...''))"
| "slice_ellipsis rt (JArr xs) n =
     (case to_string rt (JArr (take n xs)) of
        Inl e \<Rightarrow> Inl e
      | Inr s \<Rightarrow> Inr (JStr (s @ ''...'')))"
| "slice_ellipsis rt v n = Inl (type_error rt ''slice'')"

text \<open>\<^verbatim>\<open>v.length > maxLen ? v.slice(0, maxLen) + "..." : v\<close>.\<close>

definition cut_to :: "'n runtime \<Rightarrow> 'n js \<Rightarrow> nat \<Rightarrow> exn + 'n js" where
  "cut_to rt v maxLen =
     (case length_gt rt v maxLen of
        Inl e \<Rightarrow> Inl e
      | Inr longer \<Rightarrow> if longer then slice_ellipsis rt v maxLen else Inr v)"

text \<open>\<^verbatim>\<open>parsed[0]?.text\<close> for an array \<open>parsed\<close>.\<close>

fun first_text :: "'n runtime \<Rightarrow> 'n js list \<Rightarrow> 'n js" where
  "first_text rt [] = JUndefined"
| "first_text rt (x # xs) = (case get_prop rt x ''text'' of Inl e \<Rightarrow> JUndefined | Inr t \<Rightarrow> t)"

text \<open>\<^verbatim>\<open>if (v.output !== undefined) resultStr = v.output || "(empty)"\<close>.\<close>

definition take_output :: "'n runtime \<Rightarrow> 'n js \<Rightarrow> 'n js \<Rightarrow> exn + 'n js" where
  "take_output rt v resultStr =
     (case get_prop rt v ''output'' of
        Inl e \<Rightarrow> Inl e
      | Inr out \<Rightarrow>
          if out \<noteq> JUndefined then Inr (if truthy rt out then out else JStr ''(empty)'')
          else Inr resultStr)"

text \<open>
  The body of the \<^verbatim>\<open>try\<close> block that unwraps a tool result; the result is the new value
  of \<^verbatim>\<open>resultStr\<close>. \<open>None\<close> is a \<^verbatim>\<open>resultStr\<close> that is \<^verbatim>\<open>undefined\<close>:
  \<^verbatim>\<open>JSON.stringify\<close> returned it.
\<close>

definition unwrap_try :: "'n runtime \<Rightarrow> string option \<Rightarrow> exn + 'n js" where
  \<open>unwrap_try rt resultStr =
     (case resultStr of
        None \<Rightarrow> Inl (type_error rt ''includes'')
      | Some s \<Rightarrow>
          if str_includes s ''"output"'' \<or> str_includes s ''output:'' then
            (case JSON_parse rt s of
               Inl e \<Rightarrow> Inl e
             | Inr parsed \<Rightarrow>
                 (case parsed of
                    JArr xs \<Rightarrow>
                      if truthy rt (first_text rt xs) then
                        (case to_string rt (first_text rt xs) of
                           Inl e \<Rightarrow> Inl e
                         | Inr t \<Rightarrow>
                             (case JSON_parse rt t of
                                Inl e \<Rightarrow> Inl e
                              | Inr inner \<Rightarrow> take_output rt inner (JStr s)))
                      else take_output rt parsed (JStr s)
                  | _ \<Rightarrow> take_output rt parsed (JStr s)))
          else Inr (JStr s))\<close>

text \<open>The \<^verbatim>\<open>try\<close> with its empty \<^verbatim>\<open>catch\<close>: the original is kept when the body throws.\<close>

definition unwrap :: "'n runtime \<Rightarrow> string option \<Rightarrow> 'n js" where
  "unwrap rt resultStr =
     (case unwrap_try rt resultStr of
        Inl e \<Rightarrow> (case resultStr of None \<Rightarrow> JUndefined | Some s \<Rightarrow> JStr s)
      | Inr v \<Rightarrow> v)"

text \<open>The line printed for a \<^verbatim>\<open>tool_result\<close> block with the given content.\<close>

definition tool_result_line :: "'n runtime \<Rightarrow> bool \<Rightarrow> 'n js \<Rightarrow> ('n, unit) io" where
  "tool_result_line rt verbose content =
     (let resultStr = unwrap rt (case content of JStr s \<Rightarrow> Some s | _ \<Rightarrow> JSON_stringify rt content);
          maxLen = (if verbose then 2000 else 500)
      in case cut_to rt resultStr maxLen of
           Inl e \<Rightarrow> throw e
         | Inr truncated \<Rightarrow>
             (case to_string rt truncated of
                Inl e \<Rightarrow> throw e
              | Inr shown \<Rightarrow> emit (Log [Styled Dim [Txt shown]])))"

text \<open>The line printed for a \<^verbatim>\<open>tool_use\<close> block.\<close>

definition tool_use_line :: "'n runtime \<Rightarrow> string \<Rightarrow> 'n js \<Rightarrow> ('n, unit) io" where
  "tool_use_line rt name input =
     (case JSON_stringify rt input of
        None \<Rightarrow> throw (type_error rt ''length'')
      | Some inputStr \<Rightarrow>
          (let truncated = (if length inputStr > 200 then take 200 inputStr @ ''...'' else inputStr)
           in emit (Log [Txt ''\<newline>'', Styled Yellow [Txt (''[tool] '' @ name)], Txt '' '',
                         Styled Dim [Txt truncated]])))"

section \<open>Agent session runner\<close>

text \<open>
  The events of the agent SDK as the program reads them. The content of an assistant or
  user message is missing, a string, or a list of blocks; the other fields are those the
  handlers print.
\<close>

datatype 'n block =
    Text_block string
  | Tool_use string "'n js"
  | Tool_result "'n js"
  | Other_block string

datatype 'n content = No_content | String_content string | Blocks "'n block list"

datatype 'n sdk_message =
    System_message string string string "string list"
  | Assistant_message "'n content"
  | User_message "'n content"
  | Result_message string nat 'n "string list option"
  | Tool_progress string 'n
  | Stream_event string
  | Other_message string "string option"

text \<open>\<^verbatim>\<open>message.type\<close>, and \<^verbatim>\<open>message.subtype\<close> when the message has the key.\<close>

fun message_type :: "'n sdk_message \<Rightarrow> string" where
  "message_type (System_message subtype session_id model_name tools) = ''system''"
| "message_type (Assistant_message c) = ''assistant''"
| "message_type (User_message c) = ''user''"
| "message_type (Result_message subtype num_turns total_cost_usd errors) = ''result''"
| "message_type (Tool_progress tool_name elapsed_time_seconds) = ''tool_progress''"
| "message_type (Stream_event event_type) = ''stream_event''"
| "message_type (Other_message ty subtype) = ty"

fun message_subtype :: "'n sdk_message \<Rightarrow> string option" where
  "message_subtype (System_message subtype session_id model_name tools) = Some subtype"
| "message_subtype (Result_message subtype num_turns total_cost_usd errors) = Some subtype"
| "message_subtype (Other_message ty subtype) = subtype"
| "message_subtype m = None"

text \<open>One block of an assistant message, and one block of a user message.\<close>

fun assistant_block :: "'n runtime \<Rightarrow> 'n block \<Rightarrow> ('n, unit) io" where
  "assistant_block rt (Text_block t) = emit (Write t)"
| "assistant_block rt (Tool_use name input) = tool_use_line rt name input"
| "assistant_block rt b = return ()"

fun user_block :: "'n runtime \<Rightarrow> bool \<Rightarrow> 'n block \<Rightarrow> ('n, unit) io" where
  "user_block rt verbose (Tool_result c) = tool_result_line rt verbose c"
| "user_block rt verbose b = return ()"

text \<open>
  \<^verbatim>\<open>if (message.message?.content) for (const block of message.message.content)\<close>: the
  characters of a string have no \<^verbatim>\<open>type\<close>, so a string content prints nothing.
\<close>

fun for_blocks :: "'n content \<Rightarrow> ('n block \<Rightarrow> ('n, unit) io) \<Rightarrow> ('n, unit) io" where
  "for_blocks (Blocks bs) body = foreach bs body"
| "for_blocks c body = return ()"

text \<open>The \<^verbatim>\<open>switch\<close> on the type of a message.\<close>

fun dispatch :: "'n runtime \<Rightarrow> bool \<Rightarrow> 'n sdk_message \<Rightarrow> ('n, unit) io" where
  "dispatch rt verbose (System_message subtype session_id model_name tools) =
     (if subtype = ''init'' then
        bind (emit (Log [Styled Dim [Txt (''[system] Session '' @ session_id @ '' initialized'')]]))
          (\<lambda>_. emit (Log [Styled Dim [Txt (''[system] Model: '' @ model_name @ '', Tools: ''),
                                        Number (Some (int (length tools)))]]))
      else if verbose then emit (Log [Styled Dim [Txt (''[system] '' @ subtype)]])
      else return ())"
| "dispatch rt verbose (Assistant_message c) = for_blocks c (assistant_block rt)"
| "dispatch rt verbose (User_message c) = for_blocks c (user_block rt verbose)"
| "dispatch rt verbose (Result_message subtype num_turns total_cost_usd errors) =
     (if subtype = ''success'' then
        emit (Log [Txt ''\<newline>'',
                   Styled Green [Txt ''[result] Success - '', Number (Some (int num_turns)),
                                 Txt '' turns, $'', Fixed total_cost_usd 4]])
      else
        bind (emit (Err [Txt ''\<newline>'', Styled Red [Txt (''[result] Error: '' @ subtype)]]))
          (\<lambda>_. case errors of
                  None \<Rightarrow> return ()
                | Some errs \<Rightarrow> foreach errs (\<lambda>err. emit (Err [Txt (''  '' @ err)]))))"
| "dispatch rt verbose (Tool_progress tool_name elapsed_time_seconds) =
     (if verbose then
        emit (Log [Styled Dim [Txt (''[progress] '' @ tool_name @ '' (''),
                               Fixed elapsed_time_seconds 1, Txt ''s)'']])
      else return ())"
| "dispatch rt verbose (Stream_event event_type) =
     (if verbose then emit (Log [Styled Dim [Txt (''[stream] '' @ event_type)]]) else return ())"
| "dispatch rt verbose (Other_message ty subtype) = return ()"

text \<open>The body of the \<^verbatim>\<open>for await\<close> loop for one message.\<close>

definition on_message :: "'n runtime \<Rightarrow> bool \<Rightarrow> 'n sdk_message \<Rightarrow> ('n, unit) io" where
  "on_message rt verbose m =
     bind
       (if verbose then
          emit (Log [Styled Dim [Txt (''[message] type='' @ message_type m @
                   (case message_subtype m of None \<Rightarrow> [] | Some st \<Rightarrow> '' subtype='' @ st))]])
        else return ())
       (\<lambda>_. dispatch rt verbose m)"

text \<open>
  What one call of \<^verbatim>\<open>query\<close> delivers: the messages in order, interleaved with the chunks
  the SDK hands to the \<^verbatim>\<open>stderr\<close> callback, and then the end of the stream or a thrown
  value. A call that throws before the first message is a stream of no items that throws.
  The stream is finite: an agent that never answers blocks the program for ever and is
  not a stream of this model.
\<close>

datatype 'n item = Message "'n sdk_message" | Stderr_data string

datatype 'n stream = Stream (stream_items: "'n item list") (stream_end: "exn option")

record query_params =
  prompt :: string
  cwd :: string
  model_id :: string
  permissionMode :: string
  allowDangerouslySkipPermissions :: bool
  persistSession :: bool
  sandbox_enabled :: bool
  settingSources :: "string list"
  systemPrompt_preset :: string
  systemPrompt_append :: string
  tools_preset :: string
  disallowedTools :: "string list"
  mcpServers :: "(string \<times> string \<times> string \<times> string list) list"
  stderr_callback :: bool

definition on_item :: "'n runtime \<Rightarrow> bool \<Rightarrow> 'n item \<Rightarrow> ('n, unit) io" where
  "on_item rt verbose i =
     (case i of
        Message m \<Rightarrow> on_message rt verbose m
      | Stderr_data d \<Rightarrow>
          if verbose then emit (Err [Styled Dim [Txt (''[stderr] '' @ d)]]) else return ())"

fun for_await :: "'n runtime \<Rightarrow> bool \<Rightarrow> 'n stream \<Rightarrow> ('n, unit) io" where
  "for_await rt verbose (Stream items ending) =
     bind (foreach items (on_item rt verbose))
       (\<lambda>_. case ending of None \<Rightarrow> return () | Some e \<Rightarrow> throw e)"

definition query_options :: "string \<Rightarrow> string \<Rightarrow> string \<Rightarrow> bool \<Rightarrow> query_params" where
  \<open>query_options p dir m verbose =
     \<lparr>prompt = p, cwd = dir, model_id = m,
      permissionMode = ''bypassPermissions'',
      allowDangerouslySkipPermissions = True,
      persistSession = False,
      sandbox_enabled = False,
      settingSources = [],
      systemPrompt_preset = ''claude_code'',
      systemPrompt_append =
        ''\<newline>IMPORTANT: Your working directory is '' @ dir @ ''.\<newline>'' @
        ''All file paths should be relative to '' @ dir @
        '' or absolute paths starting with '' @ dir @ ''.\<newline>'' @
        ''When you run \'pwd\', it should show '' @ dir @ ''.\<newline>'' @
        ''Do NOT use paths like /home/user/repos/ - those are incorrect.'',
      tools_preset = ''claude_code'',
      disallowedTools = [''Bash''],
      mcpServers = [(''nu'', ''stdio'', ''nu'', [''--mcp''])],
      stderr_callback = verbose\<rparr>\<close>

text \<open>The \<^verbatim>\<open>catch\<close> block of \<^verbatim>\<open>runAgent\<close>.\<close>

definition report_failure :: "bool \<Rightarrow> exn \<Rightarrow> ('n, bool) io" where
  "report_failure verbose error =
     bind (emit (Err [Txt ''\<newline>--- Agent session failed ---'']))
       (\<lambda>_. bind (emit (Err [Txt ''Error:'',
                              Txt (case error of JsError msg st \<Rightarrow> msg | Thrown v \<Rightarrow> v)]))
       (\<lambda>_. bind (case error of
                     JsError msg st \<Rightarrow>
                       if verbose \<and> st \<noteq> [] then emit (Err [Txt ''Stack:'', Txt st])
                       else return ()
                   | Thrown v \<Rightarrow> return ())
       (\<lambda>_. return False)))"

text \<open>The \<^verbatim>\<open>try\<close> block of \<^verbatim>\<open>runAgent\<close>.\<close>

definition session_stream ::
  "'n runtime \<Rightarrow> (query_params \<Rightarrow> 'n stream) \<Rightarrow> string \<Rightarrow> string \<Rightarrow> string \<Rightarrow> bool \<Rightarrow> ('n, bool) io"
where
  "session_stream rt query p dir m verbose =
     bind (for_await rt verbose (query (query_options p dir m verbose)))
       (\<lambda>_. bind (emit (Log [Txt ''\<newline>--- Agent session ended ---\<newline>'']))
       (\<lambda>_. return True))"

definition runAgent ::
  "'n runtime \<Rightarrow> (query_params \<Rightarrow> 'n stream) \<Rightarrow> string \<Rightarrow> string \<Rightarrow> string \<Rightarrow> bool \<Rightarrow> ('n, bool) io"
where
  "runAgent rt query p dir m verbose =
     bind (emit (Log [Txt ''\<newline>--- Agent session starting ---\<newline>'']))
       (\<lambda>_. catch (session_stream rt query p dir m verbose) (report_failure verbose))"

section \<open>Prompt provider\<close>

text \<open>
  The three prompt functions return fixed template texts; only the initializer's template
  has a hole, filled with the project specification.
\<close>

definition initializer_head :: string where
  \<open>initializer_head =
     concat
      [''You are setting up the environment for a long-running coding project. Your goal is to create the foundation that will enable incremental progress across many sessions.\<newline>'',
       ''\<newline>'',
       ''## Project Specification\<newline>'',
       '''']\<close>

definition initializer_tail :: string where
  \<open>initializer_tail =
     concat
      [''\<newline>'',
       ''\<newline>'',
       ''## Your Tasks\<newline>'',
       ''\<newline>'',
       ''### 1. Create feature_list.json\<newline>'',
       ''Create a comprehensive feature_list.json file that breaks down the project specification into discrete, testable features. Each feature should be:\<newline>'',
       ''- Specific and verifiable\<newline>'',
       ''- End-to-end testable\<newline>'',
       ''- Independent where possible\<newline>'',
       ''\<newline>'',
       ''Use this JSON schema:\<newline>'',
       ''```json\<newline>'',
       ''{\<newline>'',
       ''  "features": [\<newline>'',
       ''    {\<newline>'',
       ''      "category": "functional|infrastructure|testing|documentation",\<newline>'',
       ''      "description": "Clear description of what this feature does",\<newline>'',
       ''      "steps": [\<newline>'',
       ''        "Step 1 to verify this feature works",\<newline>'',
       ''        "Step 2 to verify...",\<newline>'',
       ''        "..."\<newline>'',
       ''      ],\<newline>'',
       ''      "passes": false,\<newline>'',
       ''      "priority": 1\<newline>'',
       ''    }\<newline>'',
       ''  ]\<newline>'',
       ''}\<newline>'',
       ''```\<newline>'',
       ''\<newline>'',
       ''Include at least 20-30 features for a typical project. Prioritize them (1 = highest priority).\<newline>'',
       ''\<newline>'',
       ''### 2. Create claude-progress.txt\<newline>'',
       ''Create a progress tracking file with this format:\<newline>'',
       ''```\<newline>'',
       ''# Claude Progress Log\<newline>'',
       ''\<newline>'',
       ''## Session 1 - [DATE]\<newline>'',
       ''### Initial Setup\<newline>'',
       ''- Created feature_list.json with N features\<newline>'',
       ''- Created init.nu\<newline>'',
       ''- Made initial commit\<newline>'',
       ''\<newline>'',
       ''### Next Session Should:\<newline>'',
       ''- Start with the highest priority feature\<newline>'',
       ''- Run init.nu to set up the environment\<newline>'',
       ''```\<newline>'',
       ''\<newline>'',
       ''### 3. Create init.nu\<newline>'',
       ''Create a nushell initialization script that:\<newline>'',
       ''- Sets up any necessary environment (install dependencies, etc.)\<newline>'',
       ''- Starts any required services (dev server, database, etc.)\<newline>'',
       ''- Is idempotent (safe to run multiple times)\<newline>'',
       ''\<newline>'',
       ''Use nushell syntax (not bash). Make it executable with appropriate comments.\<newline>'',
       ''\<newline>'',
       ''### 4. Make Initial Git Commit\<newline>'',
       ''After creating these files:\<newline>'',
       ''1. Initialize git if not already initialized\<newline>'',
       ''2. Create a .gitignore if needed\<newline>'',
       ''3. Stage and commit with message: "chore: initialize long-running agent environment"\<newline>'',
       ''\<newline>'',
       ''## Important Guidelines\<newline>'',
       ''- Be thorough in the feature list - missing features will be missing from the final product\<newline>'',
       ''- Features should be ordered by dependency (foundational features first)\<newline>'',
       ''- Each feature should be completable in a single session\<newline>'',
       ''- DO NOT start implementing features - just set up the environment\<newline>'',
       ''\<newline>'',
       ''## Critical Constraints\<newline>'',
       ''- **DO NOT use WebSearch** - work only with the project spec and existing codebase\<newline>'',
       ''- **DO NOT spawn Task agents** - do all work directly yourself\<newline>'',
       ''- **DO NOT do research** - just create the environment files based on the spec\<newline>'',
       ''- **FOCUS** - your only job is to create feature_list.json, claude-progress.txt, init.nu, and commit\<newline>'',
       ''\<newline>'',
       ''Start by briefly exploring the project directory structure, then create the files.'']\<close>

definition planner_text :: string where
  \<open>planner_text =
     concat
      [''You are a software architect planning the implementation of a feature. Your goal is to create a detailed implementation plan that a coding agent can follow.\<newline>'',
       ''\<newline>'',
       ''## Session Startup Checklist\<newline>'',
       ''Before planning, complete these steps in order:\<newline>'',
       ''\<newline>'',
       ''1. **Orientation**\<newline>'',
       ''   - Run `pwd` to confirm your working directory\<newline>'',
       ''   - Read `claude-progress.txt` to understand recent work\<newline>'',
       ''   - Read `git log --oneline -10` to see recent commits\<newline>'',
       ''   - Read `feature_list.json` to understand the feature requirements\<newline>'',
       ''\<newline>'',
       ''2. **Verify Environment**\<newline>'',
       ''   - Run `./init.sh` if it exists to ensure the environment is set up\<newline>'',
       ''   - Do a basic smoke test to ensure the project compiles/runs\<newline>'',
       ''\<newline>'',
       ''3. **Choose Your Feature**\<newline>'',
       ''   - Find the highest-priority feature where `passes: false`\<newline>'',
       ''   - Announce which feature you will plan\<newline>'',
       ''\<newline>'',
       ''## Planning Process\<newline>'',
       ''\<newline>'',
       ''### 1. Understand the Feature\<newline>'',
       ''- Read the feature description and verification steps carefully\<newline>'',
       ''- Identify what success looks like\<newline>'',
       ''\<newline>'',
       ''### 2. Explore the Codebase\<newline>'',
       ''- Search for related code, patterns, and conventions\<newline>'',
       ''- Understand how similar features are implemented\<newline>'',
       ''- Identify files that will need modification\<newline>'',
       ''- Find reusable utilities, types, and patterns\<newline>'',
       ''\<newline>'',
       ''### 3. Design the Implementation\<newline>'',
       ''Consider:\<newline>'',
       ''- What files need to be created or modified?\<newline>'',
       ''- What is the dependency order of changes?\<newline>'',
       ''- What edge cases need handling?\<newline>'',
       ''- What tests are needed?\<newline>'',
       ''- What could go wrong?\<newline>'',
       ''\<newline>'',
       ''### 4. Write plan.md\<newline>'',
       ''Create a detailed implementation plan with this structure:\<newline>'',
       ''\<newline>'',
       ''```markdown\<newline>'',
       ''# Implementation Plan: [Feature Description]\<newline>'',
       ''\<newline>'',
       ''## Feature\<newline>'',
       ''[Copy the feature from feature_list.json]\<newline>'',
       ''\<newline>'',
       ''## Analysis\<newline>'',
       ''- Brief analysis of what\'s needed\<newline>'',
       ''- Key files/modules involved\<newline>'',
       ''- Existing patterns to follow\<newline>'',
       ''\<newline>'',
       ''## Implementation Steps\<newline>'',
       ''1. [First step with specific file and changes]\<newline>'',
       ''2. [Second step...]\<newline>'',
       ''3. ...\<newline>'',
       ''\<newline>'',
       ''## Files to Modify\<newline>'',
       ''- `path/to/file.ts` - [what changes]\<newline>'',
       ''- `path/to/other.rs` - [what changes]\<newline>'',
       ''\<newline>'',
       ''## Files to Create (if any)\<newline>'',
       ''- `path/to/new.ts` - [purpose]\<newline>'',
       ''\<newline>'',
       ''## Testing Strategy\<newline>'',
       ''- How to verify each step\<newline>'',
       ''- End-to-end verification steps\<newline>'',
       ''\<newline>'',
       ''## Risks and Mitigations\<newline>'',
       ''- Potential issues and how to handle them\<newline>'',
       ''```\<newline>'',
       ''\<newline>'',
       ''## Critical Rules\<newline>'',
       ''- **DO NOT write implementation code** - only the plan\<newline>'',
       ''- **DO NOT modify any source files** - only read them\<newline>'',
       ''- **DO NOT mark features as passing** - that\'s for the coder agent\<newline>'',
       ''- Be specific about file paths and function names\<newline>'',
       ''- Reference actual code you found in your exploration\<newline>'',
       ''- The plan should be detailed enough that a coder can follow it step-by-step\<newline>'',
       ''\<newline>'',
       ''## Session End\<newline>'',
       ''When your plan is complete:\<newline>'',
       ''1. Save it to `plan.md` in the project root\<newline>'',
       ''2. Update `claude-progress.txt` noting that you created a plan\<newline>'',
       ''3. The next session will be a coding agent that implements your plan\<newline>'',
       ''\<newline>'',
       ''Begin by running through the startup checklist.'']\<close>

definition coder_text :: string where
  \<open>coder_text =
     concat
      [''You are implementing a feature based on an existing plan. Your goal is to execute the implementation plan while leaving the codebase in a clean state.\<newline>'',
       ''\<newline>'',
       ''## Session Startup Checklist\<newline>'',
       ''Before doing anything else, complete these steps in order:\<newline>'',
       ''\<newline>'',
       ''1. **Orientation**\<newline>'',
       ''   - Run `pwd` to confirm your working directory\<newline>'',
       ''   - Read `claude-progress.txt` to understand recent work\<newline>'',
       ''   - Read `git log --oneline -10` to see recent commits\<newline>'',
       ''\<newline>'',
       ''2. **Read the Plan**\<newline>'',
       ''   - Read `plan.md` to understand what needs to be implemented\<newline>'',
       ''   - This plan was created by a planner agent who explored the codebase\<newline>'',
       ''   - Follow the plan step-by-step\<newline>'',
       ''\<newline>'',
       ''3. **Verify Environment**\<newline>'',
       ''   - Run `./init.sh` if it exists to start the dev environment\<newline>'',
       ''   - Do a basic smoke test to ensure the app/project is in a working state\<newline>'',
       ''   - If something is broken, fix it BEFORE starting new work\<newline>'',
       ''\<newline>'',
       ''## Implementation Guidelines\<newline>'',
       ''\<newline>'',
       ''### Follow the Plan\<newline>'',
       ''- The plan in plan.md contains:\<newline>'',
       ''  - Feature description and success criteria\<newline>'',
       ''  - Specific files to modify/create\<newline>'',
       ''  - Step-by-step implementation order\<newline>'',
       ''  - Testing strategy\<newline>'',
       ''- Execute each step in order\<newline>'',
       ''- If the plan has errors, fix them but document the deviation\<newline>'',
       ''\<newline>'',
       ''### Test Thoroughly\<newline>'',
       ''- Use the verification steps from the plan\<newline>'',
       ''- Test as a user would, not just with unit tests\<newline>'',
       ''- If browser testing is needed, use available automation tools\<newline>'',
       ''- Only mark a feature as `passes: true` after full verification\<newline>'',
       ''\<newline>'',
       ''### Leave a Clean State\<newline>'',
       ''Before ending your session:\<newline>'',
       ''1. Ensure all changes are committed with descriptive messages\<newline>'',
       ''2. The codebase should be in a working state (no broken builds)\<newline>'',
       ''3. Delete plan.md after successful implementation (it\'s served its purpose)\<newline>'',
       ''4. Update `claude-progress.txt` with:\<newline>'',
       ''   - What you accomplished\<newline>'',
       ''   - Whether the feature passes verification\<newline>'',
       ''   - Any issues encountered\<newline>'',
       ''\<newline>'',
       ''## Updating feature_list.json\<newline>'',
       ''- ONLY change the `passes` field from `false` to `true`\<newline>'',
       ''- NEVER delete features\<newline>'',
       ''- NEVER edit feature descriptions\<newline>'',
       ''- NEVER add new features\<newline>'',
       ''\<newline>'',
       ''## Git Practices\<newline>'',
       ''- Make atomic commits for each logical change\<newline>'',
       ''- Use descriptive commit messages\<newline>'',
       ''- Commit working states frequently\<newline>'',
       ''- If something breaks, `git revert` or fix it immediately\<newline>'',
       ''\<newline>'',
       ''## When Things Go Wrong\<newline>'',
       ''- If you break something, fix it before proceeding\<newline>'',
       ''- If you can\'t fix it, document the issue and revert to a working state\<newline>'',
       ''- Never leave the codebase in a broken state\<newline>'',
       ''- If the plan is fundamentally wrong, document why and stop (next session will re-plan)\<newline>'',
       ''\<newline>'',
       ''## Session End\<newline>'',
       ''When you\'ve completed work on your feature:\<newline>'',
       ''1. Verify all changes are committed\<newline>'',
       ''2. Update the feature\'s `passes` field in feature_list.json if verified\<newline>'',
       ''3. Delete plan.md\<newline>'',
       ''4. Update claude-progress.txt with a session summary\<newline>'',
       ''5. Run the basic smoke test one more time\<newline>'',
       ''6. Report your progress\<newline>'',
       ''\<newline>'',
       ''Begin by running through the startup checklist.'']\<close>

definition getInitializerPrompt :: "string \<Rightarrow> string" where
  "getInitializerPrompt spec = initializer_head @ spec @ initializer_tail"

definition getPlannerPrompt :: string where
  "getPlannerPrompt = planner_text"

definition getCoderPrompt :: string where
  "getCoderPrompt = coder_text"

fun getPromptForPhase :: "AgentPhase \<Rightarrow> string \<Rightarrow> string" where
  "getPromptForPhase initializer spec = getInitializerPrompt spec"
| "getPromptForPhase planner spec = getPlannerPrompt"
| "getPromptForPhase coder spec = getCoderPrompt"

fun formatPhase :: "AgentPhase \<Rightarrow> 'n seg" where
  "formatPhase initializer = Styled Yellow [Txt ''[initializer] Initializing project...'']"
| "formatPhase planner = Styled Magenta [Txt ''[planner] Planning next feature...'']"
| "formatPhase coder = Styled Green [Txt ''[coder] Implementing plan...'']"

section \<open>Session orchestrator\<close>

record options =
  projectSpec :: string
  dir :: string
  maxSessions :: "int option"
  verbose :: bool
  model :: string

text \<open>What \<^verbatim>\<open>parseArgs\<close> returns for the command line: the option values and the
  positional arguments.\<close>

record parsed_values =
  values_dir :: string
  values_max_sessions :: string
  values_model :: string
  values_verbose :: bool
  values_help :: bool

definition usage_text :: string where
  \<open>usage_text =
     concat
      [''\<newline>'',
       ''agent-loop - Long-running agent harness for complex coding tasks\<newline>'',
       ''\<newline>'',
       ''Based on Anthropic\'s research:\<newline>'',
       ''https://www.anthropic.com/engineering/effective-harnesses-for-long-running-agents\<newline>'',
       ''\<newline>'',
       ''Usage: agent-loop <project-spec> [options]\<newline>'',
       ''\<newline>'',
       ''Arguments:\<newline>'',
       ''  project-spec        Project specification (used for initialization)\<newline>'',
       ''\<newline>'',
       ''Options:\<newline>'',
       ''  -d, --dir <path>           Project directory to work in (default: ".")\<newline>'',
       ''  -m, --model <model>        Model to use (default: "claude-opus-4-5-20251101")\<newline>'',
       ''  -n, --max-sessions <num>   Maximum number of sessions to run (default: 50)\<newline>'',
       ''  -v, --verbose              Enable verbose logging (show all SDK events)\<newline>'',
       ''  -h, --help                 Show this help message\<newline>'',
       ''\<newline>'',
       ''Three-Phase Approach:\<newline>'',
       ''  1. Initializer - Creates feature_list.json, init.sh, claude-progress.txt\<newline>'',
       ''  2. Planner     - Explores codebase and creates plan.md for next feature\<newline>'',
       ''  3. Coder       - Implements the plan and marks feature as passing\<newline>'',
       ''\<newline>'',
       ''Examples:\<newline>'',
       ''  agent-loop "Build a REST API with user authentication"\<newline>'',
       ''  agent-loop "Create a CLI tool for parsing CSV files" -d ./my-project\<newline>'',
       ''  agent-loop "Implement a todo app with React" -n 100\<newline>'',
       ''  agent-loop "Fix bugs" -m claude-sonnet-4-5-20250929  # use Sonnet\<newline>'',
       '''']\<close>


text \<open>\<^verbatim>\<open>xs.join(sep)\<close> for an array of strings.\<close>

fun join :: "string \<Rightarrow> string list \<Rightarrow> string" where
  "join sep [] = []"
| "join sep [x] = x"
| "join sep (x # y # ys) = x @ sep @ join sep (y # ys)"

definition process_exit :: "nat \<Rightarrow> ('n, 'a) io" where
  "process_exit c = ([], Exit c)"

definition parseCliArgs ::
  "'n runtime \<Rightarrow> exn + parsed_values \<times> string list \<Rightarrow> ('n, options) io" where
  "parseCliArgs rt parsed =
     (case parsed of
        Inl e \<Rightarrow> throw e
      | Inr (vals, positionals) \<Rightarrow>
          if values_help vals \<or> length positionals = 0 then
            bind (emit (Log [Txt usage_text]))
              (\<lambda>_. process_exit (if values_help vals then 0 else 1))
          else
            return
              \<lparr>projectSpec = join '' '' positionals,
               dir = resolve rt [values_dir vals],
               maxSessions = parseInt rt (values_max_sessions vals),
               verbose = values_verbose vals,
               model = values_model vals\<rparr>)"

text \<open>
  The world around one run: the file system when the program starts; for the session
  numbered \<open>i\<close> the file system when the phase is determined, the agent's answer to the
  query, and the file system when progress is read after the session; and whether starting
  the notification process throws. Nothing relates the file systems of different moments:
  the agent, or anyone else, may have changed the files in between.
\<close>

record 'n world =
  fs_at_start :: fs
  fs_before :: "nat \<Rightarrow> fs"
  agent :: "nat \<Rightarrow> query_params \<Rightarrow> 'n stream"
  fs_after :: "nat \<Rightarrow> fs"
  spawn :: "string list \<Rightarrow> exn option"

definition notification_script :: "string \<Rightarrow> string \<Rightarrow> string" where
  \<open>notification_script msg title =
     ''display notification "'' @ msg @ ''" with title "'' @ title @ ''" sound name "Glass"''\<close>

definition notify :: "'n world \<Rightarrow> string \<Rightarrow> string \<Rightarrow> ('n, unit) io" where
  "notify w msg title =
     (let script = notification_script msg title
      in bind (emit (Spawn [''osascript'', ''-e'', script]))
           (\<lambda>_. case spawn w [''osascript'', ''-e'', script] of
                   None \<Rightarrow> return ()
                 | Some e \<Rightarrow> throw e))"

text \<open>\<^verbatim>\<open>session <= options.maxSessions\<close>: false when the bound is \<^verbatim>\<open>NaN\<close>.\<close>

definition within_budget :: "nat \<Rightarrow> int option \<Rightarrow> bool" where
  "within_budget session bound = (case bound of None \<Rightarrow> False | Some m \<Rightarrow> int session \<le> m)"

text \<open>How one run of the loop body ends: \<^verbatim>\<open>break\<close>, or on to the next session
  (\<^verbatim>\<open>continue\<close> and the end of the body).\<close>

datatype control = Break | Next

text \<open>The progress check after a session that succeeded.\<close>

text \<open>The lines that report progress, completion and a failed session, and the banner
  of a session.\<close>

definition progress_line :: "progress \<Rightarrow> 'n effect" where
  "progress_line p =
     Log [Styled Blue [Txt ''Progress: '', Number (Some (int (passing p))), Txt ''/'',
                       Number (Some (int (total p))), Txt '' features passing'']]"

definition complete_line :: "'n effect" where
  "complete_line = Log [Styled Green [Txt ''All features complete!'']]"

definition retry_line :: "'n effect" where
  "retry_line = Log [Styled Yellow [Txt ''Session failed, retrying after delay...'']]"

definition session_banner :: "nat \<Rightarrow> int option \<Rightarrow> 'n effect" where
  "session_banner session bound =
     Log [Txt ''\<newline>'',
          Styled Cyan [Txt ''=== Session '', Number (Some (int session)), Txt ''/'',
                       Number bound, Txt '' ==='']]"

definition check_progress :: "'n runtime \<Rightarrow> 'n world \<Rightarrow> options \<Rightarrow> nat \<Rightarrow> ('n, control) io" where
  "check_progress rt w opts session =
     bind (readFeatureList rt (fs_after w session) (dir opts)) (\<lambda>featureList.
       if featureList \<noteq> JNull then
         (case getProgress rt featureList of
            Inl e \<Rightarrow> throw e
          | Inr p \<Rightarrow>
              bind (emit (progress_line p))
                (\<lambda>_. if passing p = total p then
                        bind (emit complete_line)
                          (\<lambda>_. bind (notify w ''Agent loop complete'' ''All features passing'')
                          (\<lambda>_. return Break))
                      else return Next))
       else return Next)"

text \<open>The body of the loop for one session.\<close>

definition session_body :: "'n runtime \<Rightarrow> 'n world \<Rightarrow> options \<Rightarrow> nat \<Rightarrow> ('n, control) io" where
  "session_body rt w opts session =
     bind (emit (session_banner session (maxSessions opts)))
       (\<lambda>_. bind (determinePhase rt (fs_before w session) (dir opts)) (\<lambda>phase.
        bind (emit (Log [formatPhase phase]))
       (\<lambda>_. bind (runAgent rt (agent w session) (getPromptForPhase phase (projectSpec opts))
                     (dir opts) (model opts) (verbose opts)) (\<lambda>success.
        if \<not> success then
          bind (emit retry_line) (\<lambda>_. bind (emit (Sleep 5000)) (\<lambda>_. return Next))
        else
          bind (check_progress rt w opts session) (\<lambda>c.
            case c of
              Break \<Rightarrow> return Break
            | Next \<Rightarrow> bind (emit (Sleep 2000)) (\<lambda>_. return Next))))))"

text \<open>\<^verbatim>\<open>for (let session = ...; session <= options.maxSessions; session++)\<close>.\<close>

function sessions_from :: "'n runtime \<Rightarrow> 'n world \<Rightarrow> options \<Rightarrow> nat \<Rightarrow> ('n, unit) io" where
  "sessions_from rt w opts session =
     (if within_budget session (maxSessions opts) then
        bind (session_body rt w opts session) (\<lambda>c.
          case c of
            Break \<Rightarrow> return ()
          | Next \<Rightarrow> sessions_from rt w opts (Suc session))
      else return ())"
  by pat_completeness auto
termination
  by (relation "measure (\<lambda>(rt, w, opts, session).
        case maxSessions opts of None \<Rightarrow> 0 | Some m \<Rightarrow> nat (m + 1 - int session))")
     (auto simp: within_budget_def split: option.splits)

definition main :: "'n runtime \<Rightarrow> 'n world \<Rightarrow> exn + parsed_values \<times> string list \<Rightarrow> ('n, unit) io" where
  "main rt w parsed =
     bind (parseCliArgs rt parsed) (\<lambda>opts.
       if \<not> existsSync (fs_at_start w) (dir opts) then
         bind (emit (Err [Txt (''Project directory does not exist: '' @ dir opts)]))
           (\<lambda>_. process_exit 1)
       else
         bind (emit (Log [Styled Cyan [Txt ''=== Agent Loop Starting ==='']]))
        (\<lambda>_. bind (emit (Log [Txt (''Directory: '' @ dir opts)]))
        (\<lambda>_. bind (emit (Log [Txt (''Model: '' @ model opts)]))
        (\<lambda>_. bind (emit (Log [Txt ''Max sessions: '', Number (maxSessions opts)]))
        (\<lambda>_. bind (if verbose opts then emit (Log [Txt ''Verbose mode: enabled'']) else return ())
        (\<lambda>_. bind (sessions_from rt w opts 1)
        (\<lambda>_. emit (Log [Styled Cyan [Txt ''=== Agent loop finished ==='']]))))))))"

text \<open>The program: \<^verbatim>\<open>main().catch(...)\<close>.\<close>

definition program :: "'n runtime \<Rightarrow> 'n world \<Rightarrow> exn + parsed_values \<times> string list \<Rightarrow> ('n, unit) io" where
  "program rt w parsed =
     catch (main rt w parsed)
       (\<lambda>error. bind (emit (Err [Txt ''Fatal error:'',
                                  Txt (case error of JsError msg st \<Rightarrow> st | Thrown v \<Rightarrow> v)]))
                  (\<lambda>_. process_exit 1))"

section \<open>An engine for the examples\<close>

text \<open>
  The examples below run the program on concrete inputs. They use an engine whose numbers
  are integers and whose \<^verbatim>\<open>JSON.parse\<close> and \<^verbatim>\<open>JSON.stringify\<close> know the documents
  of the examples: each entry is what the built-in returns for that argument, and every
  other text counts as malformed.
\<close>

definition is_digit :: "char \<Rightarrow> bool" where
  "is_digit c = (c \<in> set ''0123456789'')"

definition digit_value :: "char \<Rightarrow> nat" where
  "digit_value c = length (takeWhile (\<lambda>d. d \<noteq> c) ''0123456789'')"

definition decimal :: "string \<Rightarrow> nat" where
  "decimal ds = foldl (\<lambda>a c. 10 * a + digit_value c) 0 ds"

definition example_parseInt :: "string \<Rightarrow> int option" where
  "example_parseInt s =
     (let t = dropWhile (\<lambda>c. c = CHR '' '') s;
          negative = (take 1 t = ''-'');
          u = (if take 1 t = ''-'' \<or> take 1 t = ''+'' then drop 1 t else t);
          ds = takeWhile is_digit u
      in if ds = [] then None
         else Some (if negative then - int (decimal ds) else int (decimal ds)))"

definition example_str_gt :: "string \<Rightarrow> nat \<Rightarrow> bool" where
  "example_str_gt s n = (s \<noteq> [] \<and> list_all is_digit s \<and> decimal s > n)"

function show_nat :: "nat \<Rightarrow> string" where
  "show_nat n =
     (if n < 10 then [''0123456789'' ! n] else show_nat (n div 10) @ [''0123456789'' ! (n mod 10)])"
  by pat_completeness auto
termination
  by (relation "measure id") auto

definition show_int :: "int \<Rightarrow> string" where
  "show_int i = (if i < 0 then ''-'' @ show_nat (nat (- i)) else show_nat (nat i))"

definition hello_doc :: string where
  \<open>hello_doc = ''{"output":"hi"}''\<close>

definition empty_doc :: string where
  \<open>empty_doc = ''{"output":""}''\<close>

definition inner_doc :: string where
  \<open>inner_doc = ''{"output":"output: hi"}''\<close>

text \<open>An array of one text block, and of two, whose first text is \<^const>\<open>inner_doc\<close>
  (with its quotes escaped).\<close>

definition escaped_inner_doc :: string where
  \<open>escaped_inner_doc =
     ''{'' @ [CHR 0x5C] @ ''"output'' @ [CHR 0x5C] @ ''":'' @ [CHR 0x5C] @ ''"output: hi'' @
     [CHR 0x5C] @ ''"}''\<close>

definition wrapped_doc :: string where
  \<open>wrapped_doc = ''[{"type":"text","text":"'' @ escaped_inner_doc @ ''"}]''\<close>

definition two_blocks_doc :: string where
  \<open>two_blocks_doc =
     ''[{"type":"text","text":"'' @ escaped_inner_doc @ ''"},{"type":"text","text":"more"}]''\<close>

text \<open>An array of one text block whose text is not JSON.\<close>

definition plain_block_doc :: string where
  \<open>plain_block_doc = ''[{"type":"text","text":"output: x"}]''\<close>

text \<open>A text of 600 characters, and a tool result whose output is a list that holds it.\<close>

definition long_text :: string where
  "long_text = replicate 600 (CHR ''x'')"

definition long_list_doc :: string where
  \<open>long_list_doc = ''{"output":["'' @ long_text @ ''"]}''\<close>

text \<open>A tool result whose output is an object with a \<^verbatim>\<open>length\<close>.\<close>

definition sized_object_doc :: string where
  \<open>sized_object_doc = ''{"output":{"length":501}}''\<close>

definition no_features_doc :: string where
  \<open>no_features_doc = ''{"features":[]}''\<close>

definition feature_doc :: "bool \<Rightarrow> string" where
  \<open>feature_doc done =
     ''{"features":[{"category":"functional","description":"greets","steps":["run it"],"passes":'' @
     (if done then ''true'' else ''false'') @ '',"priority":1}]}''\<close>

definition bare_doc :: string where
  "bare_doc = ''{}''"

definition broken_doc :: string where
  \<open>broken_doc = ''{"features": [''\<close>

definition example_feature :: "bool \<Rightarrow> int js" where
  "example_feature done =
     JObj [(''category'', JStr ''functional''), (''description'', JStr ''greets''),
           (''steps'', JArr [JStr ''run it'']), (''passes'', JBool done), (''priority'', JNum 1)]"

definition example_parse :: "string \<Rightarrow> exn + int js" where
  "example_parse s =
     (if s = hello_doc then Inr (JObj [(''output'', JStr ''hi'')])
      else if s = empty_doc then Inr (JObj [(''output'', JStr [])])
      else if s = inner_doc then Inr (JObj [(''output'', JStr ''output: hi'')])
      else if s = wrapped_doc then
        Inr (JArr [JObj [(''type'', JStr ''text''), (''text'', JStr inner_doc)]])
      else if s = two_blocks_doc then
        Inr (JArr [JObj [(''type'', JStr ''text''), (''text'', JStr inner_doc)],
                   JObj [(''type'', JStr ''text''), (''text'', JStr ''more'')]])
      else if s = plain_block_doc then
        Inr (JArr [JObj [(''type'', JStr ''text''), (''text'', JStr ''output: x'')]])
      else if s = sized_object_doc then
        Inr (JObj [(''output'', JObj [(''length'', JNum 501)])])
      else if s = long_list_doc then
        Inr (JObj [(''output'', JArr [JStr long_text])])
      else if s = no_features_doc then Inr (JObj [(''features'', JArr [])])
      else if s = bare_doc then Inr (JObj [])
      else if s = feature_doc True then Inr (JObj [(''features'', JArr [example_feature True])])
      else if s = feature_doc False then Inr (JObj [(''features'', JArr [example_feature False])])
      else Inl (JsError ''JSON Parse error'' ''SyntaxError''))"

definition ls_input :: "int js" where
  "ls_input = JObj [(''command'', JStr ''ls'')]"

definition example_stringify :: "int js \<Rightarrow> string option" where
  \<open>example_stringify v =
     (if v = ls_input then Some ''{"command":"ls"}''
      else None)\<close>

definition example_runtime :: "int runtime" where
  "example_runtime =
     \<lparr>JSON_parse = example_parse,
      JSON_stringify = example_stringify,
      parseInt = example_parseInt,
      resolve = join ''/'',
      num_to_string = show_int,
      num_truthy = (\<lambda>x. x \<noteq> 0),
      num_gt = (\<lambda>x n. x > int n),
      str_gt = example_str_gt,
      type_error = (\<lambda>what. JsError what ''TypeError'')\<rparr>"

text \<open>
  A project directory \<^verbatim>\<open>proj\<close> that holds the given feature list document (if any) and
  a plan (or none).
\<close>

definition example_fs :: "string option \<Rightarrow> bool \<Rightarrow> fs" where
  "example_fs doc plan =
     (\<lambda>p. if p = ''proj/feature_list.json'' then
            (case doc of None \<Rightarrow> Missing | Some content \<Rightarrow> Exists (Inr content))
          else if p = ''proj/plan.md'' then
            (if plan then Exists (Inr ''# Plan'') else Missing)
          else if p = ''proj'' then Exists (Inl (JsError ''EISDIR'' []))
          else Missing)"

text \<open>Three streams: a session that ends with a success result, one that ends with an
  error result, and one whose stream throws after the first message.\<close>

definition success_stream :: "int stream" where
  "success_stream =
     Stream
       [Message (System_message ''init'' ''s-1'' ''opus'' [''Read'', ''Edit'']),
        Message (Assistant_message (Blocks [Text_block ''Listing.'', Tool_use ''nu'' ls_input])),
        Message (User_message (Blocks [Tool_result (JStr hello_doc)])),
        Message (Result_message ''success'' 2 0 None)]
       None"

definition error_result_stream :: "int stream" where
  "error_result_stream =
     Stream
       [Message (Result_message ''error_max_turns'' 9 0 (Some [''turn limit reached'']))]
       None"

definition throwing_stream :: "int stream" where
  "throwing_stream =
     Stream
       [Message (Assistant_message (Blocks [Text_block ''Starting.'']))]
       (Some (JsError ''socket closed'' ''Error: socket closed''))"

text \<open>A world in which every session gets the same stream and sees the same file
  systems, and the notification process starts.\<close>

definition example_world :: "int stream \<Rightarrow> fs \<Rightarrow> fs \<Rightarrow> int world" where
  "example_world s files_before files_after =
     \<lparr>fs_at_start = example_fs None False,
      fs_before = (\<lambda>i. files_before),
      agent = (\<lambda>i q. s),
      fs_after = (\<lambda>i. files_after),
      spawn = (\<lambda>command. None)\<rparr>"

definition example_options :: "int option \<Rightarrow> options" where
  "example_options bound =
     \<lparr>projectSpec = ''Build a CLI'', dir = ''proj'', maxSessions = bound, verbose = False,
      model = ''opus''\<rparr>"

definition example_values :: "string \<Rightarrow> parsed_values" where
  "example_values bound =
     \<lparr>values_dir = ''proj'', values_max_sessions = bound, values_model = ''opus'',
      values_verbose = False, values_help = False\<rparr>"

section \<open>Properties\<close>

subsection \<open>Sequencing\<close>

lemma bind_return: "bind (return a) f = f a"
  by (simp add: bind_def return_def split: prod.splits)

lemma bind_emit: "bind (emit x) f = (x # fst (f ()), snd (f ()))"
  by (simp add: bind_def emit_def split: prod.splits)

lemma bind_throw: "bind (throw e) f = throw e"
  by (simp add: bind_def throw_def)

lemma bind_exit: "bind (process_exit c) f = process_exit c"
  by (simp add: bind_def process_exit_def)

lemma fst_bind:
  "fst (bind m f) = (case snd m of Done a \<Rightarrow> fst m @ fst (f a) | _ \<Rightarrow> fst m)"
  by (cases m) (simp add: bind_def split: outcome.splits prod.splits)

lemma snd_bind:
  "snd (bind m f) = (case snd m of Done a \<Rightarrow> snd (f a) | Raise e \<Rightarrow> Raise e | Exit c \<Rightarrow> Exit c)"
  by (cases m) (simp add: bind_def split: outcome.splits prod.splits)

lemma bind_Done: "m = (out, Done a) \<Longrightarrow> bind m f = (out @ fst (f a), snd (f a))"
  by (simp add: bind_def split: prod.splits)

subsection \<open>Progress tracker\<close>

lemma filter_passes_Features:
  "list_all is_Feature fs \<Longrightarrow> filter_passes rt fs = Inr (filter passes_flag fs)"
proof (induction fs)
  case Nil
  then show ?case by simp
next
  case (Cons f fs)
  from Cons.prems have f: "is_Feature f" and rest: "list_all is_Feature fs"
    by simp_all
  from f obtain kvs where kvs: "f = JObj kvs" and p: "has_field kvs ''passes'' is_boolean"
    by (cases f) simp_all
  from p obtain b where b: "map_of kvs ''passes'' = Some (JBool b)"
    by (auto simp: has_field_def split: option.splits elim: is_boolean.elims)
  show ?case
    using Cons.IH [OF rest] by (simp add: kvs b)
qed

lemma getProgress_FeatureList:
  assumes "is_FeatureList v"
  shows "getProgress rt v =
     Inr \<lparr>passing = length (filter passes_flag (features_of v)), total = length (features_of v)\<rparr>"
proof -
  from assms obtain kvs where kvs: "v = JObj kvs" and f: "has_field kvs ''features'' is_Feature_array"
    by (cases v) simp_all
  from f obtain fs where fs: "map_of kvs ''features'' = Some (JArr fs)" and all: "list_all is_Feature fs"
    by (auto simp: has_field_def split: option.splits elim: is_Feature_array.elims)
  show ?thesis
    by (simp add: getProgress_def kvs fs filter_passes_Features [OF all])
qed

text \<open>
  C9. On every value of the shape \<^verbatim>\<open>FeatureList\<close>, \<^verbatim>\<open>getProgress\<close> does not throw:
  \<open>total\<close> is the number of features and \<open>passing\<close> the number of features whose
  \<^verbatim>\<open>passes\<close> is \<^verbatim>\<open>true\<close>, so \<open>0 \<le> passing \<le> total\<close>; and the result is the same for
  every feature list that holds the same features in another order.
\<close>

theorem getProgress_fold:
  "is_FeatureList v \<Longrightarrow>
     getProgress rt v =
       Inr \<lparr>passing = length (filter passes_flag (features_of v)),
            total = length (features_of v)\<rparr>
     \<and> length (filter passes_flag (features_of v)) \<le> length (features_of v)
     \<and> (\<forall>v'. is_FeatureList v' \<and> mset (features_of v') = mset (features_of v) \<longrightarrow>
          getProgress rt v' = getProgress rt v)"
proof (intro conjI allI impI)
  assume wf: "is_FeatureList v"
  show "getProgress rt v =
       Inr \<lparr>passing = length (filter passes_flag (features_of v)),
            total = length (features_of v)\<rparr>"
    by (rule getProgress_FeatureList [OF wf])
  show "length (filter passes_flag (features_of v)) \<le> length (features_of v)"
    by (rule length_filter_le)
  fix v' :: "'a js"
  assume "is_FeatureList v' \<and> mset (features_of v') = mset (features_of v)"
  then have wf': "is_FeatureList v'" and perm: "mset (features_of v') = mset (features_of v)"
    by simp_all
  have "size (filter_mset passes_flag (mset (features_of v'))) =
        size (filter_mset passes_flag (mset (features_of v)))"
    by (simp only: perm)
  then have p: "length (filter passes_flag (features_of v')) =
                length (filter passes_flag (features_of v))"
    by (simp only: mset_filter [symmetric] size_mset)
  have t: "length (features_of v') = length (features_of v)"
    using perm by (metis size_mset)
  show "getProgress rt v' = getProgress rt v"
    by (simp add: getProgress_FeatureList [OF wf] getProgress_FeatureList [OF wf'] p t)
qed

theorem getProgress_fold_witness:
  "is_FeatureList (JObj [(''features'', JArr [example_feature True, example_feature False])])
   \<and> getProgress example_runtime
        (JObj [(''features'', JArr [example_feature True, example_feature False])]) =
      Inr \<lparr>passing = 1, total = 2\<rparr>
   \<and> getProgress example_runtime
        (JObj [(''features'', JArr [example_feature False, example_feature True])]) =
      Inr \<lparr>passing = 1, total = 2\<rparr>"
proof -
  let ?v = "JObj [(''features'', JArr [example_feature True, example_feature False])] :: int js"
  let ?v' = "JObj [(''features'', JArr [example_feature False, example_feature True])] :: int js"
  have h: "is_FeatureList ?v"
    by (simp add: has_field_def example_feature_def)
  have h': "is_FeatureList ?v' \<and> mset (features_of ?v') = mset (features_of ?v)"
    by (simp add: has_field_def example_feature_def)
  have flags: "filter passes_flag (features_of ?v) = [example_feature True]"
    by (simp add: example_feature_def)
  from getProgress_fold [OF h, of example_runtime] h' flags
  have "getProgress example_runtime ?v = Inr \<lparr>passing = 1, total = 2\<rparr>"
    and "getProgress example_runtime ?v' = getProgress example_runtime ?v"
    by simp_all
  with h show ?thesis by simp
qed

subsection \<open>Phase resolver\<close>

lemma readFeatureList_Missing:
  "files (resolve rt [d, ''feature_list.json'']) = Missing \<Longrightarrow>
   readFeatureList rt files d = ([], Done JNull)"
  by (simp add: readFeatureList_def existsSync_def return_def)

lemma readFeatureList_parsed:
  "files (resolve rt [d, ''feature_list.json'']) = Exists (Inr content) \<Longrightarrow>
   JSON_parse rt content = Inr v \<Longrightarrow>
   readFeatureList rt files d = ([], Done v)"
  by (simp add: readFeatureList_def existsSync_def readFileSync_def return_def catch_def)

lemma readFeatureList_malformed:
  "files (resolve rt [d, ''feature_list.json'']) = Exists (Inr content) \<Longrightarrow>
   JSON_parse rt content = Inl e \<Longrightarrow>
   readFeatureList rt files d = ([Err [Txt ''Failed to parse feature_list.json'']], Done JNull)"
  by (simp add: readFeatureList_def existsSync_def readFileSync_def return_def catch_def
      throw_def bind_emit)

lemma readFeatureList_unreadable:
  "files (resolve rt [d, ''feature_list.json'']) = Exists (Inl e) \<Longrightarrow>
   readFeatureList rt files d = ([Err [Txt ''Failed to parse feature_list.json'']], Done JNull)"
  by (simp add: readFeatureList_def existsSync_def readFileSync_def return_def catch_def
      throw_def bind_emit)

lemma readFeatureList_cases:
  "readFeatureList rt files d = ([], Done JNull) \<or>
   readFeatureList rt files d = ([Err [Txt ''Failed to parse feature_list.json'']], Done JNull) \<or>
   (\<exists>v. readFeatureList rt files d = ([], Done v))"
proof (cases "files (resolve rt [d, ''feature_list.json''])")
  case Missing
  then show ?thesis by (simp add: readFeatureList_Missing)
next
  case (Exists r)
  show ?thesis
  proof (cases r)
    case (Inl e)
    with Exists show ?thesis by (simp add: readFeatureList_unreadable)
  next
    case (Inr content)
    with Exists show ?thesis
      by (cases "JSON_parse rt content")
        (simp_all add: readFeatureList_malformed readFeatureList_parsed)
  qed
qed

lemma readFeatureList_Done: "\<exists>out v. readFeatureList rt files d = (out, Done v)"
  using readFeatureList_cases [of rt files d] by auto

lemma determinePhase_Done: "\<exists>out ph. determinePhase rt files d = (out, Done ph)"
proof -
  obtain out v where "readFeatureList rt files d = (out, Done v)"
    using readFeatureList_Done by blast
  then show ?thesis
    by (simp add: determinePhase_def bind_def return_def)
qed

text \<open>
  C3. \<^verbatim>\<open>determinePhase\<close> always returns a phase (it neither throws nor leaves the
  process), and the three combinations of artifacts give these phases: no feature list
  file, the initializer; a feature list that parses to a value other than \<^verbatim>\<open>null\<close>
  and no plan, the planner; such a feature list and a plan, the coder. The choice in the
  two-phase program gives the initializer, the coder and the coder.
\<close>

theorem determinePhase_table:
  "(files (resolve rt [d, ''feature_list.json'']) = Missing \<longrightarrow>
      determinePhase rt files d = ([], Done initializer) \<and>
      two_phase_choice rt files d = ([], Done initializer))
   \<and> (files (resolve rt [d, ''feature_list.json'']) = Exists (Inr content) \<and>
        JSON_parse rt content = Inr v \<and> v \<noteq> JNull \<and>
        files (resolve rt [d, ''plan.md'']) = Missing \<longrightarrow>
      determinePhase rt files d = ([], Done planner) \<and>
      two_phase_choice rt files d = ([], Done coder))
   \<and> (files (resolve rt [d, ''feature_list.json'']) = Exists (Inr content) \<and>
        JSON_parse rt content = Inr v \<and> v \<noteq> JNull \<and>
        files (resolve rt [d, ''plan.md'']) \<noteq> Missing \<longrightarrow>
      determinePhase rt files d = ([], Done coder) \<and>
      two_phase_choice rt files d = ([], Done coder))
   \<and> (\<exists>out ph. determinePhase rt files d = (out, Done ph))"
proof (intro conjI impI)
  assume "files (resolve rt [d, ''feature_list.json'']) = Missing"
  then have r: "readFeatureList rt files d = ([], Done JNull)"
    by (rule readFeatureList_Missing)
  show "determinePhase rt files d = ([], Done initializer)"
    by (simp add: determinePhase_def r bind_def return_def)
  show "two_phase_choice rt files d = ([], Done initializer)"
    by (simp add: two_phase_choice_def r bind_def return_def)
next
  assume a: "files (resolve rt [d, ''feature_list.json'']) = Exists (Inr content) \<and>
        JSON_parse rt content = Inr v \<and> v \<noteq> JNull \<and>
        files (resolve rt [d, ''plan.md'']) = Missing"
  then have r: "readFeatureList rt files d = ([], Done v)"
    by (simp add: readFeatureList_parsed)
  show "determinePhase rt files d = ([], Done planner)"
    using a by (simp add: determinePhase_def r bind_def return_def planExists_def existsSync_def)
  show "two_phase_choice rt files d = ([], Done coder)"
    using a by (simp add: two_phase_choice_def r bind_def return_def)
next
  assume a: "files (resolve rt [d, ''feature_list.json'']) = Exists (Inr content) \<and>
        JSON_parse rt content = Inr v \<and> v \<noteq> JNull \<and>
        files (resolve rt [d, ''plan.md'']) \<noteq> Missing"
  then have r: "readFeatureList rt files d = ([], Done v)"
    by (simp add: readFeatureList_parsed)
  show "determinePhase rt files d = ([], Done coder)"
    using a by (simp add: determinePhase_def r bind_def return_def planExists_def existsSync_def)
  show "two_phase_choice rt files d = ([], Done coder)"
    using a by (simp add: two_phase_choice_def r bind_def return_def)
next
  show "\<exists>out ph. determinePhase rt files d = (out, Done ph)"
    by (rule determinePhase_Done)
qed

lemma example_resolve:
  "resolve example_runtime [''proj'', ''feature_list.json''] = ''proj/feature_list.json''"
  "resolve example_runtime [''proj'', ''plan.md''] = ''proj/plan.md''"
  "resolve example_runtime [''proj''] = ''proj''"
  by (simp_all add: example_runtime_def)

lemma example_parse_feature_doc:
  "JSON_parse example_runtime (feature_doc b) = Inr (JObj [(''features'', JArr [example_feature b])])"
  by (cases b)
    (simp_all add: example_runtime_def example_parse_def feature_doc_def hello_doc_def
      empty_doc_def inner_doc_def wrapped_doc_def two_blocks_doc_def plain_block_doc_def sized_object_doc_def
      long_list_doc_def no_features_doc_def bare_doc_def)

theorem determinePhase_table_witness:
  "determinePhase example_runtime (example_fs None False) ''proj'' = ([], Done initializer)
   \<and> two_phase_choice example_runtime (example_fs None False) ''proj'' = ([], Done initializer)
   \<and> determinePhase example_runtime (example_fs (Some (feature_doc False)) False) ''proj'' =
       ([], Done planner)
   \<and> two_phase_choice example_runtime (example_fs (Some (feature_doc False)) False) ''proj'' =
       ([], Done coder)
   \<and> determinePhase example_runtime (example_fs (Some (feature_doc False)) True) ''proj'' =
       ([], Done coder)
   \<and> two_phase_choice example_runtime (example_fs (Some (feature_doc False)) True) ''proj'' =
       ([], Done coder)"
  using
    determinePhase_table [of "example_fs None False" example_runtime "''proj''"]
    determinePhase_table [of "example_fs (Some (feature_doc False)) False" example_runtime
      "''proj''" "feature_doc False" "JObj [(''features'', JArr [example_feature False])]"]
    determinePhase_table [of "example_fs (Some (feature_doc False)) True" example_runtime
      "''proj''" "feature_doc False" "JObj [(''features'', JArr [example_feature False])]"]
  by (simp add: example_resolve example_fs_def example_parse_feature_doc)

text \<open>
  C4. When the feature list file exists and \<^verbatim>\<open>JSON.parse\<close> rejects its text,
  \<^verbatim>\<open>readFeatureList\<close> prints the diagnostic and returns \<^verbatim>\<open>null\<close>, and
  \<^verbatim>\<open>determinePhase\<close> returns the initializer, the phase it returns for a directory without
  the file; neither of them throws.
\<close>

theorem malformed_feature_list_is_absent:
  "files (resolve rt [d, ''feature_list.json'']) = Exists (Inr content) \<Longrightarrow>
   JSON_parse rt content = Inl e \<Longrightarrow>
     readFeatureList rt files d =
       ([Err [Txt ''Failed to parse feature_list.json'']], Done JNull)
     \<and> determinePhase rt files d =
       ([Err [Txt ''Failed to parse feature_list.json'']], Done initializer)
     \<and> snd (determinePhase rt files d) =
         snd (determinePhase rt (files (resolve rt [d, ''feature_list.json''] := Missing)) d)"
proof (intro conjI)
  assume a: "files (resolve rt [d, ''feature_list.json'']) = Exists (Inr content)"
    and b: "JSON_parse rt content = Inl e"
  show r: "readFeatureList rt files d =
       ([Err [Txt ''Failed to parse feature_list.json'']], Done JNull)"
    using a b by (simp add: readFeatureList_malformed)
  show p: "determinePhase rt files d =
       ([Err [Txt ''Failed to parse feature_list.json'']], Done initializer)"
    by (simp add: determinePhase_def r bind_def return_def)
  have "readFeatureList rt (files (resolve rt [d, ''feature_list.json''] := Missing)) d =
        ([], Done JNull)"
    by (simp add: readFeatureList_Missing)
  then have "determinePhase rt (files (resolve rt [d, ''feature_list.json''] := Missing)) d =
        ([], Done initializer)"
    by (simp add: determinePhase_def bind_def return_def)
  with p show "snd (determinePhase rt files d) =
         snd (determinePhase rt (files (resolve rt [d, ''feature_list.json''] := Missing)) d)"
    by simp
qed

lemma example_parse_broken_doc:
  "JSON_parse example_runtime broken_doc = Inl (JsError ''JSON Parse error'' ''SyntaxError'')"
  by (simp add: example_runtime_def example_parse_def broken_doc_def feature_doc_def
      hello_doc_def empty_doc_def inner_doc_def wrapped_doc_def two_blocks_doc_def
      plain_block_doc_def sized_object_doc_def long_list_doc_def no_features_doc_def bare_doc_def)

theorem malformed_feature_list_is_absent_witness:
  "readFeatureList example_runtime (example_fs (Some broken_doc) True) ''proj'' =
     ([Err [Txt ''Failed to parse feature_list.json'']], Done JNull)
   \<and> determinePhase example_runtime (example_fs (Some broken_doc) True) ''proj'' =
     ([Err [Txt ''Failed to parse feature_list.json'']], Done initializer)"
proof -
  have a: "example_fs (Some broken_doc) True
             (resolve example_runtime [''proj'', ''feature_list.json'']) =
           Exists (Inr broken_doc)"
    by (simp add: example_resolve example_fs_def)
  from malformed_feature_list_is_absent
    [of "example_fs (Some broken_doc) True" example_runtime "''proj''" broken_doc,
     OF a example_parse_broken_doc]
  show ?thesis by simp
qed

subsection \<open>Prompt provider\<close>

text \<open>
  C8. The prompt of the planner and of the coder is the same for every project
  specification; the prompt of the initializer is different for different specifications.
\<close>

theorem prompt_depends_on_spec_only_for_initializer:
  "getPromptForPhase planner s1 = getPromptForPhase planner s2
   \<and> getPromptForPhase coder s1 = getPromptForPhase coder s2
   \<and> (getPromptForPhase initializer s1 = getPromptForPhase initializer s2) = (s1 = s2)"
  by (simp add: getInitializerPrompt_def)

subsection \<open>Unwrapping a tool result\<close>

lemma take_output_changed:
  "take_output rt v r = Inr w \<Longrightarrow> w \<noteq> r \<Longrightarrow>
   \<exists>out. get_prop rt v ''output'' = Inr out \<and> out \<noteq> JUndefined \<and>
         w = (if truthy rt out then out else JStr ''(empty)'')"
  by (auto simp: take_output_def split: sum.splits if_splits)

lemma take_output_found:
  "get_prop rt v ''output'' = Inr out \<Longrightarrow> out \<noteq> JUndefined \<Longrightarrow>
   take_output rt v r = Inr (if truthy rt out then out else JStr ''(empty)'')"
  by (simp add: take_output_def)

lemma get_prop_defined:
  "get_prop rt v k = Inr out \<Longrightarrow> out \<noteq> JUndefined \<Longrightarrow>
   \<exists>kvs. v = JObj kvs \<and> map_of kvs k = Some out"
  by (cases v) (auto split: option.splits)

lemma unwrap_no_gate:
  \<open>\<not> (str_includes s ''"output"'' \<or> str_includes s ''output:'') \<Longrightarrow> unwrap rt (Some s) = JStr s\<close>
  by (simp add: unwrap_def unwrap_try_def)

lemma unwrap_parse_failure:
  "JSON_parse rt s = Inl e \<Longrightarrow> unwrap rt (Some s) = JStr s"
  by (simp add: unwrap_def unwrap_try_def)

lemma unwrap_array:
  assumes \<open>str_includes s ''"output"'' \<or> str_includes s ''output:''\<close>
    and "JSON_parse rt s = Inr (JArr xs)"
    and "truthy rt (first_text rt xs)"
    and "to_string rt (first_text rt xs) = Inr t"
    and "JSON_parse rt t = Inr inner"
    and "get_prop rt inner ''output'' = Inr out"
    and "out \<noteq> JUndefined"
  shows "unwrap rt (Some s) = (if truthy rt out then out else JStr ''(empty)'')"
  using assms by (simp add: unwrap_def unwrap_try_def take_output_def)

lemma unwrap_object:
  assumes \<open>str_includes s ''"output"'' \<or> str_includes s ''output:''\<close>
    and "JSON_parse rt s = Inr (JObj kvs)"
    and "map_of kvs ''output'' = Some out"
    and "out \<noteq> JUndefined"
  shows "unwrap rt (Some s) = (if truthy rt out then out else JStr ''(empty)'')"
  using assms by (simp add: unwrap_def unwrap_try_def take_output_def)

lemma unwrap_changed:
  assumes changed: "unwrap rt (Some s) \<noteq> JStr s"
  shows \<open>(str_includes s ''"output"'' \<or> str_includes s ''output:'') \<and>
     ((\<exists>xs t inner out.
         JSON_parse rt s = Inr (JArr xs) \<and> truthy rt (first_text rt xs) \<and>
         to_string rt (first_text rt xs) = Inr t \<and> JSON_parse rt t = Inr inner \<and>
         get_prop rt inner ''output'' = Inr out \<and> out \<noteq> JUndefined \<and>
         unwrap rt (Some s) = (if truthy rt out then out else JStr ''(empty)''))
      \<or> (\<exists>kvs out.
         JSON_parse rt s = Inr (JObj kvs) \<and> map_of kvs ''output'' = Some out \<and>
         out \<noteq> JUndefined \<and>
         unwrap rt (Some s) = (if truthy rt out then out else JStr ''(empty)'')))\<close>
proof -
  have gate: \<open>str_includes s ''"output"'' \<or> str_includes s ''output:''\<close>
    using changed unwrap_no_gate by blast
  obtain parsed where parsed: "JSON_parse rt s = Inr parsed"
    using changed unwrap_parse_failure by (cases "JSON_parse rt s") auto
  show ?thesis
  proof (cases "\<exists>xs. parsed = JArr xs \<and> truthy rt (first_text rt xs)")
    case True
    then obtain xs where xs: "parsed = JArr xs" and tr: "truthy rt (first_text rt xs)"
      by blast
    obtain t where t: "to_string rt (first_text rt xs) = Inr t"
      using changed gate parsed xs tr
      by (cases "to_string rt (first_text rt xs)") (auto simp: unwrap_def unwrap_try_def)
    obtain inner where inner: "JSON_parse rt t = Inr inner"
      using changed gate parsed xs tr t
      by (cases "JSON_parse rt t") (auto simp: unwrap_def unwrap_try_def)
    obtain w where w: "take_output rt inner (JStr s) = Inr w"
      using changed gate parsed xs tr t inner
      by (cases "take_output rt inner (JStr s)") (auto simp: unwrap_def unwrap_try_def)
    have u: "unwrap rt (Some s) = w"
      using gate parsed xs tr t inner w by (auto simp: unwrap_def unwrap_try_def)
    with changed have "w \<noteq> JStr s" by simp
    from take_output_changed [OF w this] u gate parsed xs tr t inner show ?thesis
      by auto
  next
    case False
    then have other: "unwrap_try rt (Some s) = take_output rt parsed (JStr s)"
      using gate parsed by (cases parsed) (auto simp: unwrap_try_def)
    obtain w where w: "take_output rt parsed (JStr s) = Inr w"
      using changed other by (cases "take_output rt parsed (JStr s)") (auto simp: unwrap_def)
    have u: "unwrap rt (Some s) = w"
      using other w by (simp add: unwrap_def)
    with changed have "w \<noteq> JStr s" by simp
    from take_output_changed [OF w this] obtain out where
      out: "get_prop rt parsed ''output'' = Inr out" "out \<noteq> JUndefined"
        "w = (if truthy rt out then out else JStr ''(empty)'')"
      by blast
    from get_prop_defined [OF out(1,2)] obtain kvs where
      "parsed = JObj kvs" "map_of kvs ''output'' = Some out"
      by blast
    with u out gate parsed show ?thesis by auto
  qed
qed

lemma first_text_object:
  "first_text rt (JObj kvs # rest) = (case map_of kvs ''text'' of None \<Rightarrow> JUndefined | Some t \<Rightarrow> t)"
  by (simp split: option.splits)

lemma first_text_truthy:
  "truthy rt (first_text rt xs) \<Longrightarrow>
   \<exists>kvs rest. xs = JObj kvs # rest \<and> map_of kvs ''text'' = Some (first_text rt xs)"
proof (cases xs)
  case Nil
  assume "truthy rt (first_text rt xs)"
  with Nil show ?thesis by simp
next
  case (Cons x rest)
  assume t: "truthy rt (first_text rt xs)"
  show ?thesis
  proof (cases x)
    case (JObj kvs)
    with Cons t show ?thesis by (auto split: option.splits)
  qed (use Cons t in auto)
qed

subsection \<open>The printed line of a tool call and of a tool result\<close>

lemma cut_to_string:
  "cut_to rt (JStr t) n = Inr (JStr (if length t > n then take n t @ ''...'' else t))"
  by (simp add: cut_to_def)

lemma tool_result_line_string:
  assumes "unwrap rt (case content of JStr s \<Rightarrow> Some s | _ \<Rightarrow> JSON_stringify rt content) = JStr t"
  shows "tool_result_line rt v content =
     ([Log [Styled Dim [Txt (if length t > (if v then 2000 else 500)
                             then take (if v then 2000 else 500) t @ ''...'' else t)]]],
      Done ())"
  using assms by (simp add: tool_result_line_def cut_to_string emit_def Let_def)

lemma truncated_length:
  "length (if length t > n then take n t @ ''...'' else t) \<le> n + 3"
  by simp

lemma tool_use_line_cases:
  "(JSON_stringify rt input = None \<and>
      tool_use_line rt name input = ([], Raise (type_error rt ''length'')))
   \<or> (\<exists>t. tool_use_line rt name input =
          ([Log [Txt ''\<newline>'', Styled Yellow [Txt (''[tool] '' @ name)], Txt '' '',
                 Styled Dim [Txt t]]], Done ())
        \<and> length t \<le> 200 + 3)"
  by (cases "JSON_stringify rt input") (simp_all add: tool_use_line_def throw_def emit_def Let_def)

text \<open>
  C6 (as amended). The unwrap of a tool result is a total function: whatever its
  \<^verbatim>\<open>try\<close> block throws, the original string is kept. The displayed value differs from the
  original string only when the string contains \<^verbatim>\<open>"output"\<close> or \<^verbatim>\<open>output:\<close>, it parses
  as JSON, and the parsed value is either an array whose first item is an object with a
  truthy \<^verbatim>\<open>text\<close> that parses as JSON to an object with the key \<^verbatim>\<open>output\<close> (the array may
  have further items), or an object with the key \<^verbatim>\<open>output\<close>; in both cases the displayed
  value is that output, or \<^verbatim>\<open>(empty)\<close> when the output is falsy, the empty string among
  them. When \<^verbatim>\<open>JSON.parse\<close> rejects the string, or anything else in the \<^verbatim>\<open>try\<close> block
  throws, the original string is kept. When the value to display is a string, printing the
  result does not throw.
\<close>

theorem unwrap_replaces_only_on_output:
  \<open>(unwrap rt (Some s) \<noteq> JStr s \<longrightarrow>
      (str_includes s ''"output"'' \<or> str_includes s ''output:'') \<and>
      ((\<exists>kvs rest t ikvs out.
          JSON_parse rt s = Inr (JArr (JObj kvs # rest)) \<and>
          (\<exists>txt. map_of kvs ''text'' = Some txt \<and> truthy rt txt \<and> to_string rt txt = Inr t) \<and>
          JSON_parse rt t = Inr (JObj ikvs) \<and> map_of ikvs ''output'' = Some out \<and>
          unwrap rt (Some s) = (if truthy rt out then out else JStr ''(empty)''))
       \<or> (\<exists>kvs out.
          JSON_parse rt s = Inr (JObj kvs) \<and> map_of kvs ''output'' = Some out \<and>
          unwrap rt (Some s) = (if truthy rt out then out else JStr ''(empty)''))))
   \<and> ((str_includes s ''"output"'' \<or> str_includes s ''output:'') \<and>
       JSON_parse rt s = Inr (JArr (JObj kvs # rest)) \<and>
       map_of kvs ''text'' = Some (JStr t) \<and> t \<noteq> [] \<and>
       JSON_parse rt t = Inr (JObj ikvs) \<and> map_of ikvs ''output'' = Some (JStr out) \<longrightarrow>
      unwrap rt (Some s) = JStr (if out = [] then ''(empty)'' else out))
   \<and> ((str_includes s ''"output"'' \<or> str_includes s ''output:'') \<and>
       JSON_parse rt s = Inr (JObj kvs) \<and> map_of kvs ''output'' = Some (JStr out) \<longrightarrow>
      unwrap rt (Some s) = JStr (if out = [] then ''(empty)'' else out))
   \<and> (JSON_parse rt s = Inl e \<longrightarrow> unwrap rt (Some s) = JStr s)
   \<and> (unwrap rt (Some s) = JStr shown \<longrightarrow>
      tool_result_line rt v (JStr s) =
        ([Log [Styled Dim [Txt (if length shown > (if v then 2000 else 500)
                                then take (if v then 2000 else 500) shown @ ''...''
                                else shown)]]], Done ()))
   \<and> (unwrap_try rt (Some s) = Inl thrown \<longrightarrow> unwrap rt (Some s) = JStr s)\<close>
proof (intro conjI impI)
  assume changed: "unwrap rt (Some s) \<noteq> JStr s"
  from unwrap_changed [OF changed]
  show \<open>str_includes s ''"output"'' \<or> str_includes s ''output:''\<close>
    by blast
  from unwrap_changed [OF changed]
  consider
    (array) xs t inner out where
      "JSON_parse rt s = Inr (JArr xs)" "truthy rt (first_text rt xs)"
      "to_string rt (first_text rt xs) = Inr t" "JSON_parse rt t = Inr inner"
      "get_prop rt inner ''output'' = Inr out" "out \<noteq> JUndefined"
      "unwrap rt (Some s) = (if truthy rt out then out else JStr ''(empty)'')"
  | (object) kvs out where
      "JSON_parse rt s = Inr (JObj kvs)" "map_of kvs ''output'' = Some out"
      "unwrap rt (Some s) = (if truthy rt out then out else JStr ''(empty)'')"
    by blast
  then show \<open>(\<exists>kvs rest t ikvs out.
          JSON_parse rt s = Inr (JArr (JObj kvs # rest)) \<and>
          (\<exists>txt. map_of kvs ''text'' = Some txt \<and> truthy rt txt \<and> to_string rt txt = Inr t) \<and>
          JSON_parse rt t = Inr (JObj ikvs) \<and> map_of ikvs ''output'' = Some out \<and>
          unwrap rt (Some s) = (if truthy rt out then out else JStr ''(empty)''))
       \<or> (\<exists>kvs out.
          JSON_parse rt s = Inr (JObj kvs) \<and> map_of kvs ''output'' = Some out \<and>
          unwrap rt (Some s) = (if truthy rt out then out else JStr ''(empty)''))\<close>
  proof cases
    case array
    from first_text_truthy [OF array(2)] obtain kvs rest where
      xs: "xs = JObj kvs # rest" and tx: "map_of kvs ''text'' = Some (first_text rt xs)"
      by blast
    from get_prop_defined [OF array(5,6)] obtain ikvs where
      inner: "inner = JObj ikvs" "map_of ikvs ''output'' = Some out"
      by blast
    from array xs tx inner show ?thesis by blast
  next
    case object
    then show ?thesis by blast
  qed
next
  assume a: \<open>(str_includes s ''"output"'' \<or> str_includes s ''output:'') \<and>
       JSON_parse rt s = Inr (JArr (JObj kvs # rest)) \<and>
       map_of kvs ''text'' = Some (JStr t) \<and> t \<noteq> [] \<and>
       JSON_parse rt t = Inr (JObj ikvs) \<and> map_of ikvs ''output'' = Some (JStr out)\<close>
  then have "unwrap rt (Some s) =
      (if truthy rt (JStr out) then JStr out else JStr ''(empty)'')"
    by (intro unwrap_array [where xs = "JObj kvs # rest" and t = t and inner = "JObj ikvs"])
      simp_all
  then show "unwrap rt (Some s) = JStr (if out = [] then ''(empty)'' else out)"
    by simp
next
  assume a: \<open>(str_includes s ''"output"'' \<or> str_includes s ''output:'') \<and>
       JSON_parse rt s = Inr (JObj kvs) \<and> map_of kvs ''output'' = Some (JStr out)\<close>
  then have "unwrap rt (Some s) =
      (if truthy rt (JStr out) then JStr out else JStr ''(empty)'')"
    by (intro unwrap_object [where kvs = kvs]) simp_all
  then show "unwrap rt (Some s) = JStr (if out = [] then ''(empty)'' else out)"
    by simp
next
  assume "JSON_parse rt s = Inl e"
  then show "unwrap rt (Some s) = JStr s"
    by (rule unwrap_parse_failure)
next
  assume "unwrap rt (Some s) = JStr shown"
  then show "tool_result_line rt v (JStr s) =
        ([Log [Styled Dim [Txt (if length shown > (if v then 2000 else 500)
                                then take (if v then 2000 else 500) shown @ ''...''
                                else shown)]]], Done ())"
    by (intro tool_result_line_string) simp
next
  assume "unwrap_try rt (Some s) = Inl thrown"
  then show "unwrap rt (Some s) = JStr s"
    by (simp add: unwrap_def)
qed

lemma example_parse_hello:
  "JSON_parse example_runtime hello_doc = Inr (JObj [(''output'', JStr ''hi'')])"
  by (simp add: example_runtime_def example_parse_def)

lemma example_parse_empty:
  "JSON_parse example_runtime empty_doc = Inr (JObj [(''output'', JStr [])])"
  by (simp add: example_runtime_def example_parse_def hello_doc_def empty_doc_def)

lemma example_parse_inner:
  "JSON_parse example_runtime inner_doc = Inr (JObj [(''output'', JStr ''output: hi'')])"
  by (simp add: example_runtime_def example_parse_def hello_doc_def empty_doc_def inner_doc_def)

lemma example_parse_wrapped:
  "JSON_parse example_runtime wrapped_doc =
     Inr (JArr [JObj [(''type'', JStr ''text''), (''text'', JStr inner_doc)]])"
  by (simp add: example_runtime_def example_parse_def hello_doc_def empty_doc_def
      wrapped_doc_def) (simp add: inner_doc_def)

lemma example_parse_two_blocks:
  "JSON_parse example_runtime two_blocks_doc =
     Inr (JArr [JObj [(''type'', JStr ''text''), (''text'', JStr inner_doc)],
                JObj [(''type'', JStr ''text''), (''text'', JStr ''more'')]])"
  by (simp add: example_runtime_def example_parse_def hello_doc_def empty_doc_def
      wrapped_doc_def two_blocks_doc_def) (simp add: inner_doc_def)

lemma example_parse_plain_block:
  "JSON_parse example_runtime plain_block_doc =
     Inr (JArr [JObj [(''type'', JStr ''text''), (''text'', JStr ''output: x'')]])"
  "JSON_parse example_runtime ''output: x'' = Inl (JsError ''JSON Parse error'' ''SyntaxError'')"
  by (simp_all add: example_runtime_def example_parse_def hello_doc_def empty_doc_def
      inner_doc_def escaped_inner_doc_def wrapped_doc_def two_blocks_doc_def
      plain_block_doc_def sized_object_doc_def long_list_doc_def no_features_doc_def bare_doc_def feature_doc_def)

lemma example_parse_long_list:
  "JSON_parse example_runtime long_list_doc = Inr (JObj [(''output'', JArr [JStr long_text])])"
  by (simp add: example_runtime_def example_parse_def hello_doc_def empty_doc_def
      wrapped_doc_def two_blocks_doc_def plain_block_doc_def sized_object_doc_def long_list_doc_def)
    (simp add: inner_doc_def)

lemma example_gates:
  \<open>str_includes hello_doc ''"output"''\<close>
  \<open>str_includes empty_doc ''"output"''\<close>
  \<open>str_includes wrapped_doc ''output:''\<close>
  \<open>str_includes two_blocks_doc ''output:''\<close>
  \<open>str_includes long_list_doc ''"output"''\<close>
  \<open>str_includes plain_block_doc ''output:''\<close>
  \<open>str_includes sized_object_doc ''"output"''\<close>
  by (simp_all add: hello_doc_def empty_doc_def wrapped_doc_def two_blocks_doc_def
      escaped_inner_doc_def long_list_doc_def plain_block_doc_def sized_object_doc_def)

lemma example_parse_sized_object:
  "JSON_parse example_runtime sized_object_doc =
     Inr (JObj [(''output'', JObj [(''length'', JNum 501)])])"
  by (simp add: example_runtime_def example_parse_def hello_doc_def empty_doc_def
      wrapped_doc_def two_blocks_doc_def plain_block_doc_def sized_object_doc_def)
    (simp add: inner_doc_def)

lemma inner_doc_nonempty: "inner_doc \<noteq> []"
  by (simp add: inner_doc_def)

lemma length_long_text: "length long_text = 600"
  by (simp only: long_text_def length_replicate)

theorem unwrap_replaces_only_on_output_witness:
  \<open>(str_includes hello_doc ''"output"'' \<or> str_includes hello_doc ''output:'')
   \<and> unwrap example_runtime (Some wrapped_doc) = JStr ''output: hi''
   \<and> unwrap example_runtime (Some hello_doc) = JStr ''hi''
   \<and> unwrap example_runtime (Some empty_doc) = JStr ''(empty)''
   \<and> unwrap example_runtime (Some broken_doc) = JStr broken_doc
   \<and> tool_result_line example_runtime False (JStr hello_doc) =
       ([Log [Styled Dim [Txt ''hi'']]], Done ())
   \<and> unwrap example_runtime (Some plain_block_doc) = JStr plain_block_doc\<close>
proof -
  have a: "unwrap example_runtime (Some wrapped_doc) =
      JStr (if ''output: hi'' = [] then ''(empty)'' else ''output: hi'')"
    by (rule unwrap_replaces_only_on_output
        [where rt = example_runtime and s = wrapped_doc
          and kvs = "[(''type'', JStr ''text''), (''text'', JStr inner_doc)]"
          and rest = "[]" and t = inner_doc and ikvs = "[(''output'', JStr ''output: hi'')]"
          and out = "''output: hi''",
         THEN conjunct2, THEN conjunct1, THEN mp])
      (simp add: example_gates example_parse_wrapped example_parse_inner inner_doc_nonempty)
  have b: "unwrap example_runtime (Some hello_doc) = JStr (if ''hi'' = [] then ''(empty)'' else ''hi'')"
    by (rule unwrap_replaces_only_on_output
        [where rt = example_runtime and s = hello_doc and kvs = "[(''output'', JStr ''hi'')]"
          and out = "''hi''",
         THEN conjunct2, THEN conjunct2, THEN conjunct1, THEN mp])
      (simp add: example_gates example_parse_hello)
  have c: "unwrap example_runtime (Some empty_doc) = JStr (if ([]::string) = [] then ''(empty)'' else [])"
    by (rule unwrap_replaces_only_on_output
        [where rt = example_runtime and s = empty_doc and kvs = "[(''output'', JStr [])]"
          and out = "[]::string",
         THEN conjunct2, THEN conjunct2, THEN conjunct1, THEN mp])
      (simp add: example_gates example_parse_empty)
  have d: "unwrap example_runtime (Some broken_doc) = JStr broken_doc"
    by (rule unwrap_replaces_only_on_output
        [where rt = example_runtime and s = broken_doc
          and e = "JsError ''JSON Parse error'' ''SyntaxError''",
         THEN conjunct2, THEN conjunct2, THEN conjunct2, THEN conjunct1, THEN mp])
      (rule example_parse_broken_doc)
  from b have b': "unwrap example_runtime (Some hello_doc) = JStr ''hi''"
    by simp
  have e: "tool_result_line example_runtime False (JStr hello_doc) =
       ([Log [Styled Dim [Txt (if length ''hi'' > (if False then 2000 else 500)
                               then take (if False then 2000 else 500) ''hi'' @ ''...''
                               else ''hi'')]]], Done ())"
    by (rule unwrap_replaces_only_on_output
        [where rt = example_runtime and s = hello_doc and shown = "''hi''" and v = False,
         THEN conjunct2, THEN conjunct2, THEN conjunct2, THEN conjunct2, THEN conjunct1,
         THEN mp])
      (rule b')
  have f: "unwrap example_runtime (Some plain_block_doc) = JStr plain_block_doc"
    by (rule unwrap_replaces_only_on_output
        [where rt = example_runtime and s = plain_block_doc
          and thrown = "JsError ''JSON Parse error'' ''SyntaxError''",
         THEN conjunct2, THEN conjunct2, THEN conjunct2, THEN conjunct2, THEN conjunct2,
         THEN mp])
      (simp add: unwrap_try_def example_gates example_parse_plain_block)
  have "hello_doc \<noteq> ''hi''"
    by (simp add: hello_doc_def)
  with b' have "unwrap example_runtime (Some hello_doc) \<noteq> JStr hello_doc"
    by simp
  then have g: \<open>str_includes hello_doc ''"output"'' \<or> str_includes hello_doc ''output:''\<close>
    by (rule unwrap_replaces_only_on_output
        [where rt = example_runtime and s = hello_doc,
         THEN conjunct1, THEN mp, THEN conjunct1])
  from g a b' c d e f show ?thesis by simp
qed

text \<open>
  The claim C6 as it was written names a one-element array. The text below parses to an
  array of two blocks, and its displayed value is the output found in the first block.
\<close>

theorem unwrap_two_blocks_counterexample:
  "JSON_parse example_runtime two_blocks_doc =
     Inr (JArr [JObj [(''type'', JStr ''text''), (''text'', JStr inner_doc)],
                JObj [(''type'', JStr ''text''), (''text'', JStr ''more'')]])
   \<and> unwrap example_runtime (Some two_blocks_doc) = JStr ''output: hi''
   \<and> unwrap example_runtime (Some two_blocks_doc) \<noteq> JStr two_blocks_doc"
proof -
  have u: "unwrap example_runtime (Some two_blocks_doc) =
      (if truthy example_runtime (JStr ''output: hi'') then JStr ''output: hi''
       else JStr ''(empty)'')"
    by (rule unwrap_array [where t = inner_doc and inner = "JObj [(''output'', JStr ''output: hi'')]"
          and xs = "[JObj [(''type'', JStr ''text''), (''text'', JStr inner_doc)],
                JObj [(''type'', JStr ''text''), (''text'', JStr ''more'')]]"])
      (simp_all add: example_gates example_parse_two_blocks example_parse_inner
        inner_doc_nonempty)
  have n: "two_blocks_doc \<noteq> ''output: hi''"
    by (simp add: two_blocks_doc_def)
  from u n example_parse_two_blocks show ?thesis by simp
qed

text \<open>
  C7 at a failing input. The tool result \<^const>\<open>long_list_doc\<close> has a list as its
  \<^verbatim>\<open>output\<close>; the unwrap makes that list the value to display, its length is 1, so
  nothing is cut, and the line printed holds the 600 characters of its element: more than
  the cap of 500 and the ellipsis.
\<close>

theorem tool_result_line_exceeds_cap:
  "tool_result_line example_runtime False (JStr long_list_doc) =
     ([Log [Styled Dim [Txt long_text]]], Done ())
   \<and> length long_text > 500 + 3"
proof -
  have u: "unwrap example_runtime (Some long_list_doc) =
      (if truthy example_runtime (JArr [JStr long_text])
       then JArr [JStr long_text] else JStr ''(empty)'')"
    by (rule unwrap_object [where kvs = "[(''output'', JArr [JStr long_text])]"])
      (simp_all add: example_gates example_parse_long_list)
  then have "unwrap example_runtime (Some long_list_doc) = JArr [JStr long_text]"
    by simp
  then show ?thesis
    by (simp add: tool_result_line_def cut_to_def emit_def Let_def length_long_text)
qed

text \<open>
  The unwrap can also end the session. The tool result \<^const>\<open>sized_object_doc\<close> has an
  object as its \<^verbatim>\<open>output\<close>; the object's \<^verbatim>\<open>length\<close> is 501, more than the cap, and an
  object has no \<^verbatim>\<open>slice\<close>: the call throws outside the \<^verbatim>\<open>try\<close> block of the unwrap.
\<close>

lemma tool_result_line_throws_on_sized_object:
  "tool_result_line example_runtime False (JStr sized_object_doc) =
     ([], Raise (JsError ''slice'' ''TypeError''))"
proof -
  have "unwrap example_runtime (Some sized_object_doc) =
      (if truthy example_runtime (JObj [(''length'', JNum 501)])
       then JObj [(''length'', JNum 501)] else JStr ''(empty)'')"
    by (rule unwrap_object [where kvs = "[(''output'', JObj [(''length'', JNum 501)])]"])
      (simp_all add: example_gates example_parse_sized_object)
  then have "unwrap example_runtime (Some sized_object_doc) = JObj [(''length'', JNum 501)]"
    by simp
  then show ?thesis
    by (simp add: tool_result_line_def cut_to_def throw_def Let_def example_runtime_def)
qed

subsection \<open>The session runner\<close>

lemma foreach_emit: "foreach xs (\<lambda>x. emit (f x)) = (map f xs, Done ())"
  by (induction xs) (simp_all add: return_def bind_emit)

lemma foreach_emitted: "foreach xs (\<lambda>x. ([f x], Done ())) = (map f xs, Done ())"
  using foreach_emit [of xs f] by (simp add: emit_def)

lemma foreach_no_exit:
  assumes "\<And>x c. snd (body x) \<noteq> Exit c"
  shows "snd (foreach xs body) \<noteq> Exit c"
proof (induction xs)
  case Nil
  show ?case by (simp add: return_def)
next
  case (Cons x xs)
  with assms [of x] show ?case
    by (cases "snd (body x)") (simp_all add: snd_bind)
qed

lemma foreach_Done_iff:
  "(snd (foreach xs body) = Done ()) = (\<forall>x\<in>set xs. snd (body x) = Done ())"
proof (induction xs)
  case Nil
  show ?case by (simp add: return_def)
next
  case (Cons x xs)
  then show ?case
    by (cases "snd (body x)") (simp_all add: snd_bind)
qed

lemma tool_use_line_no_exit: "snd (tool_use_line rt name input) \<noteq> Exit c"
  using tool_use_line_cases [of rt input name] by auto

lemma tool_result_line_no_exit: "snd (tool_result_line rt v content) \<noteq> Exit c"
  by (simp add: tool_result_line_def Let_def throw_def emit_def split: sum.splits)

lemma assistant_block_no_exit: "snd (assistant_block rt b) \<noteq> Exit c"
  by (cases b) (simp_all add: emit_def return_def tool_use_line_no_exit)

lemma user_block_no_exit: "snd (user_block rt v b) \<noteq> Exit c"
  by (cases b) (simp_all add: return_def tool_result_line_no_exit)

lemma for_blocks_no_exit:
  assumes "\<And>b c. snd (body b) \<noteq> Exit c"
  shows "snd (for_blocks content body) \<noteq> Exit c"
  using assms by (cases content) (simp_all add: return_def foreach_no_exit)

lemma dispatch_result_error:
  "subtype \<noteq> ''success'' \<Longrightarrow>
   dispatch rt v (Result_message subtype turns cost errors) =
     (Err [Txt ''\<newline>'', Styled Red [Txt (''[result] Error: '' @ subtype)]] #
      map (\<lambda>err. Err [Txt (''  '' @ err)]) (case errors of None \<Rightarrow> [] | Some errs \<Rightarrow> errs),
      Done ())"
  by (cases errors) (simp_all add: bind_emit return_def foreach_emit)

lemma dispatch_no_exit: "snd (dispatch rt v m) \<noteq> Exit c"
proof (cases m)
  case (System_message subtype session_id model_name tools)
  then show ?thesis by (simp add: bind_def emit_def return_def)
next
  case (Assistant_message content)
  then show ?thesis by (simp add: for_blocks_no_exit assistant_block_no_exit)
next
  case (User_message content)
  then show ?thesis by (simp add: for_blocks_no_exit user_block_no_exit)
next
  case (Result_message subtype turns cost errors)
  then show ?thesis
    by (cases errors) (simp_all add: bind_def emit_def return_def foreach_emitted)
next
  case (Tool_progress tool_name elapsed)
  then show ?thesis by (simp add: emit_def return_def)
next
  case (Stream_event event_type)
  then show ?thesis by (simp add: emit_def return_def)
next
  case (Other_message ty subtype)
  then show ?thesis by (simp add: return_def)
qed

lemma on_message_no_exit: "snd (on_message rt v m) \<noteq> Exit c"
  by (simp add: on_message_def snd_bind emit_def return_def dispatch_no_exit)

lemma on_item_no_exit: "snd (on_item rt v i) \<noteq> Exit c"
  by (cases i) (simp_all add: on_item_def on_message_no_exit emit_def return_def)

lemma on_item_outcome:
  "snd (on_item rt v i) = Done () \<or> (\<exists>e. snd (on_item rt v i) = Raise e)"
  using on_item_no_exit [of rt v i] by (cases "snd (on_item rt v i)") auto

lemma for_await_outcome:
  "snd (for_await rt v s) =
     (case snd (foreach (stream_items s) (on_item rt v)) of
        Done u \<Rightarrow> (case stream_end s of None \<Rightarrow> Done () | Some e \<Rightarrow> Raise e)
      | Raise e \<Rightarrow> Raise e
      | Exit c \<Rightarrow> Exit c)"
  by (cases s) (simp add: snd_bind return_def throw_def split: outcome.splits option.splits)

lemma for_await_Done_iff:
  "(snd (for_await rt v s) = Done ()) =
     (stream_end s = None \<and> (\<forall>i\<in>set (stream_items s). snd (on_item rt v i) = Done ()))"
proof -
  have "(snd (foreach (stream_items s) (on_item rt v)) = Done ()) =
        (\<forall>i\<in>set (stream_items s). snd (on_item rt v i) = Done ())"
    by (rule foreach_Done_iff)
  then show ?thesis
    by (auto simp: for_await_outcome split: outcome.splits option.splits)
qed

lemma for_await_no_exit: "snd (for_await rt v s) \<noteq> Exit c"
  using foreach_no_exit [of "on_item rt v" "stream_items s" c] on_item_no_exit [of rt v]
  by (auto simp: for_await_outcome split: outcome.splits option.splits)

lemma for_await_Raise_iff:
  "(\<exists>e. snd (for_await rt v s) = Raise e) =
     (stream_end s \<noteq> None \<or> (\<exists>i\<in>set (stream_items s). \<exists>e. snd (on_item rt v i) = Raise e))"
proof -
  have "(\<exists>e. snd (for_await rt v s) = Raise e) = (snd (for_await rt v s) \<noteq> Done ())"
    using for_await_no_exit [of rt v s] by (cases "snd (for_await rt v s)") auto
  also have "\<dots> = (stream_end s \<noteq> None \<or> (\<exists>i\<in>set (stream_items s). snd (on_item rt v i) \<noteq> Done ()))"
    by (auto simp: for_await_Done_iff)
  also have "\<dots> = (stream_end s \<noteq> None \<or> (\<exists>i\<in>set (stream_items s). \<exists>e. snd (on_item rt v i) = Raise e))"
    using on_item_outcome [of rt v] by (metis outcome.distinct(1))
  finally show ?thesis .
qed

lemma report_failure_eq:
  "report_failure v (JsError msg st) =
     ([Err [Txt ''\<newline>--- Agent session failed ---''], Err [Txt ''Error:'', Txt msg]] @
      (if v \<and> st \<noteq> [] then [Err [Txt ''Stack:'', Txt st]] else []),
      Done False)"
  "report_failure v (Thrown x) =
     ([Err [Txt ''\<newline>--- Agent session failed ---''], Err [Txt ''Error:'', Txt x]],
      Done False)"
  by (simp_all add: report_failure_def bind_def return_def emit_def)

lemma runAgent_Done:
  "for_await rt v (q (query_options p d m v)) = (out, Done ()) \<Longrightarrow>
   runAgent rt q p d m v =
     (Log [Txt ''\<newline>--- Agent session starting ---\<newline>''] # out @
      [Log [Txt ''\<newline>--- Agent session ended ---\<newline>'']], Done True)"
  by (simp add: runAgent_def session_stream_def bind_def catch_def return_def emit_def)

lemma runAgent_Raise:
  "for_await rt v (q (query_options p d m v)) = (out, Raise e) \<Longrightarrow>
   runAgent rt q p d m v =
     (Log [Txt ''\<newline>--- Agent session starting ---\<newline>''] # out @
      fst (report_failure v e), Done False)"
  by (cases e)
    (simp_all add: runAgent_def session_stream_def bind_def catch_def emit_def
      report_failure_eq)

lemma runAgent_returns: "\<exists>out b. runAgent rt q p d m v = (out, Done b)"
proof (cases "for_await rt v (q (query_options p d m v))")
  case (Pair out r)
  show ?thesis
  proof (cases r)
    case (Done u)
    with Pair runAgent_Done [of rt v q p d m out] show ?thesis by auto
  next
    case (Raise e)
    with Pair runAgent_Raise [of rt v q p d m out e] show ?thesis by auto
  next
    case (Exit c)
    with Pair for_await_no_exit [of rt v "q (query_options p d m v)" c] show ?thesis by simp
  qed
qed

lemma runAgent_True_iff:
  "(snd (runAgent rt q p d m v) = Done True) =
     (snd (for_await rt v (q (query_options p d m v))) = Done ())"
proof (cases "for_await rt v (q (query_options p d m v))")
  case (Pair out r)
  show ?thesis
  proof (cases r)
    case (Done u)
    with Pair runAgent_Done [of rt v q p d m out] show ?thesis by auto
  next
    case (Raise e)
    with Pair runAgent_Raise [of rt v q p d m out e] show ?thesis by auto
  next
    case (Exit c)
    with Pair for_await_no_exit [of rt v "q (query_options p d m v)" c] show ?thesis by simp
  qed
qed

lemma runAgent_False_iff:
  "(snd (runAgent rt q p d m v) = Done False) =
     (\<exists>e. snd (for_await rt v (q (query_options p d m v))) = Raise e)"
proof (cases "for_await rt v (q (query_options p d m v))")
  case (Pair out r)
  show ?thesis
  proof (cases r)
    case (Done u)
    with Pair runAgent_Done [of rt v q p d m out] show ?thesis by auto
  next
    case (Raise e)
    with Pair runAgent_Raise [of rt v q p d m out e] show ?thesis by auto
  next
    case (Exit c)
    with Pair for_await_no_exit [of rt v "q (query_options p d m v)" c] show ?thesis by simp
  qed
qed

text \<open>
  C2. \<^verbatim>\<open>runAgent\<close> never throws. It returns \<^verbatim>\<open>false\<close> exactly when the stream throws
  (at its start or after some messages) or the handling of one of its messages throws, and
  \<^verbatim>\<open>true\<close> exactly when the stream ends and every message was handled without a throw.
  On a thrown \<^verbatim>\<open>Error\<close> it prints the failure line, the message and, when verbose, the
  stack. A result message whose subtype is not \<^verbatim>\<open>success\<close> only prints the error line
  and the listed errors: its handling does not throw.
\<close>

theorem runAgent_false_iff_thrown:
  "(snd (runAgent rt q p d m v) = Done False) =
      (stream_end (q (query_options p d m v)) \<noteq> None \<or>
       (\<exists>i\<in>set (stream_items (q (query_options p d m v))). \<exists>e. snd (on_item rt v i) = Raise e))
   \<and> (snd (runAgent rt q p d m v) = Done True) =
      (stream_end (q (query_options p d m v)) = None \<and>
       (\<forall>i\<in>set (stream_items (q (query_options p d m v))). snd (on_item rt v i) = Done ()))
   \<and> (\<exists>out b. runAgent rt q p d m v = (out, Done b))
   \<and> (for_await rt v (q (query_options p d m v)) = (out, Raise (JsError msg st)) \<longrightarrow>
        runAgent rt q p d m v =
          (Log [Txt ''\<newline>--- Agent session starting ---\<newline>''] # out @
           [Err [Txt ''\<newline>--- Agent session failed ---''], Err [Txt ''Error:'', Txt msg]] @
           (if v \<and> st \<noteq> [] then [Err [Txt ''Stack:'', Txt st]] else []),
           Done False))
   \<and> (subtype \<noteq> ''success'' \<longrightarrow>
        dispatch rt v (Result_message subtype turns cost errors) =
          (Err [Txt ''\<newline>'', Styled Red [Txt (''[result] Error: '' @ subtype)]] #
           map (\<lambda>err. Err [Txt (''  '' @ err)]) (case errors of None \<Rightarrow> [] | Some errs \<Rightarrow> errs),
           Done ()))"
proof (intro conjI impI)
  show "(snd (runAgent rt q p d m v) = Done False) =
      (stream_end (q (query_options p d m v)) \<noteq> None \<or>
       (\<exists>i\<in>set (stream_items (q (query_options p d m v))). \<exists>e. snd (on_item rt v i) = Raise e))"
    by (simp only: runAgent_False_iff for_await_Raise_iff)
  show "(snd (runAgent rt q p d m v) = Done True) =
      (stream_end (q (query_options p d m v)) = None \<and>
       (\<forall>i\<in>set (stream_items (q (query_options p d m v))). snd (on_item rt v i) = Done ()))"
    by (simp only: runAgent_True_iff for_await_Done_iff)
  show "\<exists>out b. runAgent rt q p d m v = (out, Done b)"
    by (rule runAgent_returns)
next
  assume "for_await rt v (q (query_options p d m v)) = (out, Raise (JsError msg st))"
  from runAgent_Raise [of rt v q p d m out "JsError msg st", OF this]
  show "runAgent rt q p d m v =
          (Log [Txt ''\<newline>--- Agent session starting ---\<newline>''] # out @
           [Err [Txt ''\<newline>--- Agent session failed ---''], Err [Txt ''Error:'', Txt msg]] @
           (if v \<and> st \<noteq> [] then [Err [Txt ''Stack:'', Txt st]] else []),
           Done False)"
    by (simp add: report_failure_eq)
next
  assume "subtype \<noteq> ''success''"
  then show "dispatch rt v (Result_message subtype turns cost errors) =
          (Err [Txt ''\<newline>'', Styled Red [Txt (''[result] Error: '' @ subtype)]] #
           map (\<lambda>err. Err [Txt (''  '' @ err)]) (case errors of None \<Rightarrow> [] | Some errs \<Rightarrow> errs),
           Done ())"
    by (rule dispatch_result_error)
qed

lemma for_await_throwing_stream:
  "for_await example_runtime False throwing_stream =
     ([Write ''Starting.''], Raise (JsError ''socket closed'' ''Error: socket closed''))"
  by (simp add: throwing_stream_def on_item_def on_message_def bind_def return_def emit_def
      throw_def)

theorem runAgent_false_iff_thrown_witness:
  "runAgent example_runtime (\<lambda>params. throwing_stream) ''prompt'' ''proj'' ''opus'' False =
     ([Log [Txt ''\<newline>--- Agent session starting ---\<newline>''], Write ''Starting.'',
       Err [Txt ''\<newline>--- Agent session failed ---''], Err [Txt ''Error:'', Txt ''socket closed'']],
      Done False)
   \<and> snd (runAgent example_runtime (\<lambda>params. error_result_stream) ''prompt'' ''proj'' ''opus'' False) =
      Done True
   \<and> dispatch example_runtime False
        (Result_message ''error_max_turns'' 9 0 (Some [''turn limit reached''])) =
      ([Err [Txt ''\<newline>'', Styled Red [Txt ''[result] Error: error_max_turns'']],
        Err [Txt ''  turn limit reached'']], Done ())"
proof -
  note t = runAgent_false_iff_thrown [where rt = example_runtime and v = False
      and p = "''prompt''" and d = "''proj''" and m = "''opus''"]
  have a: "runAgent example_runtime (\<lambda>params. throwing_stream) ''prompt'' ''proj'' ''opus'' False =
     (Log [Txt ''\<newline>--- Agent session starting ---\<newline>''] # [Write ''Starting.''] @
      [Err [Txt ''\<newline>--- Agent session failed ---''], Err [Txt ''Error:'', Txt ''socket closed'']] @
      (if False \<and> ''Error: socket closed'' \<noteq> [] then [Err [Txt ''Stack:'', Txt ''Error: socket closed'']] else []),
      Done False)"
    by (rule t [where q = "\<lambda>params. throwing_stream",
          THEN conjunct2, THEN conjunct2, THEN conjunct2, THEN conjunct1, THEN mp])
      (rule for_await_throwing_stream)
  have c: "dispatch example_runtime False
        (Result_message ''error_max_turns'' 9 0 (Some [''turn limit reached''])) =
      (Err [Txt ''\<newline>'', Styled Red [Txt (''[result] Error: '' @ ''error_max_turns'')]] #
       map (\<lambda>err. Err [Txt (''  '' @ err)])
         (case Some [''turn limit reached''] of None \<Rightarrow> [] | Some errs \<Rightarrow> errs), Done ())"
    by (rule t [where q = "\<lambda>params. error_result_stream",
          THEN conjunct2, THEN conjunct2, THEN conjunct2, THEN conjunct2, THEN mp])
      simp
  have "stream_end error_result_stream = None \<and>
      (\<forall>i\<in>set (stream_items error_result_stream). snd (on_item example_runtime False i) = Done ())"
    using c by (simp add: error_result_stream_def on_item_def on_message_def bind_return)
  then have b: "snd (runAgent example_runtime (\<lambda>params. error_result_stream)
       ''prompt'' ''proj'' ''opus'' False) = Done True"
    by (simp add: t [where q = "\<lambda>params. error_result_stream", THEN conjunct2, THEN conjunct1])
  have "stream_end throwing_stream \<noteq> None"
    by (simp add: throwing_stream_def)
  then have g: "snd (runAgent example_runtime (\<lambda>params. throwing_stream)
       ''prompt'' ''proj'' ''opus'' False) = Done False"
    by (simp add: t [where q = "\<lambda>params. throwing_stream", THEN conjunct1])
  from a g b c show ?thesis by simp
qed

subsection \<open>The session orchestrator\<close>

declare sessions_from.simps [simp del]

lemma notify_eq:
  "notify w msg title =
     ([Spawn [''osascript'', ''-e'', notification_script msg title]],
      case spawn w [''osascript'', ''-e'', notification_script msg title] of
        None \<Rightarrow> Done ()
      | Some e \<Rightarrow> Raise e)"
  by (simp add: notify_def Let_def bind_def emit_def return_def throw_def split: option.splits)

lemma check_progress_cases:
  assumes "readFeatureList rt (fs_after w n) (dir opts) = (outr, Done fl)"
  shows "check_progress rt w opts n =
     (if fl = JNull then (outr, Done Next)
      else
        (case getProgress rt fl of
           Inl e \<Rightarrow> (outr, Raise e)
         | Inr p \<Rightarrow>
             if passing p = total p then
               (outr @ [progress_line p, complete_line,
                      Spawn [''osascript'', ''-e'',
                             notification_script ''Agent loop complete'' ''All features passing'']],
                case spawn w [''osascript'', ''-e'',
                       notification_script ''Agent loop complete'' ''All features passing''] of
                  None \<Rightarrow> Done Break
                | Some e \<Rightarrow> Raise e)
             else (outr @ [progress_line p], Done Next)))"
  using assms
  by (simp add: check_progress_def bind_def emit_def return_def throw_def notify_eq
      split: sum.splits option.splits)

lemma session_body_failed:
  assumes "determinePhase rt (fs_before w n) (dir opts) = (outp, Done ph)"
    and "runAgent rt (agent w n) (getPromptForPhase ph (projectSpec opts)) (dir opts)
           (model opts) (verbose opts) = (outa, Done False)"
  shows "session_body rt w opts n =
     (session_banner n (maxSessions opts) # outp @ [Log [formatPhase ph]] @ outa @
      [retry_line, Sleep 5000], Done Next)"
  using assms by (simp add: session_body_def bind_def emit_def return_def)

lemma session_body_succeeded:
  assumes "determinePhase rt (fs_before w n) (dir opts) = (outp, Done ph)"
    and "runAgent rt (agent w n) (getPromptForPhase ph (projectSpec opts)) (dir opts)
           (model opts) (verbose opts) = (outa, Done True)"
    and "check_progress rt w opts n = (outc, r)"
  shows "session_body rt w opts n =
     (session_banner n (maxSessions opts) # outp @ [Log [formatPhase ph]] @ outa @ outc @
      (if r = Done Next then [Sleep 2000] else []), r)"
proof (cases r)
  case (Done c)
  with assms show ?thesis
    by (cases c) (simp_all add: session_body_def bind_def emit_def return_def)
next
  case (Raise e)
  with assms show ?thesis
    by (simp add: session_body_def bind_def emit_def return_def)
next
  case (Exit c)
  with assms show ?thesis
    by (simp add: session_body_def bind_def emit_def return_def)
qed

lemma sessions_from_step:
  "within_budget n (maxSessions opts) \<Longrightarrow>
   sessions_from rt w opts n =
     bind (session_body rt w opts n)
       (\<lambda>c. case c of Break \<Rightarrow> return () | Next \<Rightarrow> sessions_from rt w opts (Suc n))"
  by (subst sessions_from.simps) simp

lemma sessions_from_stop:
  "\<not> within_budget n (maxSessions opts) \<Longrightarrow> sessions_from rt w opts n = ([], Done ())"
  by (subst sessions_from.simps) (simp add: return_def)


lemma sessions_from_Next:
  assumes "within_budget n (maxSessions opts)"
    and "snd (session_body rt w opts n) = Done Next"
  shows "sessions_from rt w opts n =
     (fst (session_body rt w opts n) @ fst (sessions_from rt w opts (Suc n)),
      snd (sessions_from rt w opts (Suc n)))"
  using assms
  by (cases "session_body rt w opts n")
    (simp add: sessions_from_step bind_def return_def split: prod.splits)



lemma example_fs_simps:
  "example_fs doc plan ''proj/feature_list.json'' =
     (case doc of None \<Rightarrow> Missing | Some content \<Rightarrow> Exists (Inr content))"
  "example_fs doc plan ''proj/plan.md'' = (if plan then Exists (Inr ''# Plan'') else Missing)"
  "example_fs doc plan ''proj'' = Exists (Inl (JsError ''EISDIR'' []))"
  by (simp_all add: example_fs_def)

lemma example_parse_no_features:
  "JSON_parse example_runtime no_features_doc = Inr (JObj [(''features'', JArr [])])"
  by (simp add: example_runtime_def example_parse_def hello_doc_def empty_doc_def
      wrapped_doc_def two_blocks_doc_def plain_block_doc_def sized_object_doc_def long_list_doc_def
      no_features_doc_def)
    (simp add: inner_doc_def)

lemma example_parse_bare:
  "JSON_parse example_runtime bare_doc = Inr (JObj [])"
  by (simp add: example_runtime_def example_parse_def hello_doc_def empty_doc_def
      inner_doc_def wrapped_doc_def two_blocks_doc_def plain_block_doc_def sized_object_doc_def long_list_doc_def
      no_features_doc_def bare_doc_def)

lemma example_readFeatureList:
  "readFeatureList example_runtime (example_fs None plan) ''proj'' = ([], Done JNull)"
  "readFeatureList example_runtime (example_fs (Some (feature_doc b)) plan) ''proj'' =
     ([], Done (JObj [(''features'', JArr [example_feature b])]))"
  "readFeatureList example_runtime (example_fs (Some no_features_doc) plan) ''proj'' =
     ([], Done (JObj [(''features'', JArr [])]))"
  "readFeatureList example_runtime (example_fs (Some bare_doc) plan) ''proj'' =
     ([], Done (JObj []))"
  by (simp_all add: readFeatureList_Missing
      readFeatureList_parsed [where content = "feature_doc b"]
      readFeatureList_parsed [where content = no_features_doc]
      readFeatureList_parsed [where content = bare_doc]
      example_resolve example_fs_simps example_parse_feature_doc example_parse_no_features
      example_parse_bare)

lemma example_determinePhase:
  "determinePhase example_runtime (example_fs None plan) ''proj'' = ([], Done initializer)"
  "determinePhase example_runtime (example_fs (Some (feature_doc b)) True) ''proj'' =
     ([], Done coder)"
  by (simp_all add: determinePhase_def example_readFeatureList bind_def return_def
      planExists_def existsSync_def example_resolve example_fs_simps)

lemma example_getProgress:
  "getProgress example_runtime (JObj [(''features'', JArr [example_feature True])]) =
     Inr \<lparr>passing = 1, total = 1\<rparr>"
  "getProgress example_runtime (JObj [(''features'', JArr [example_feature False])]) =
     Inr \<lparr>passing = 0, total = 1\<rparr>"
  "getProgress example_runtime (JObj [(''features'', JArr [])]) = Inr \<lparr>passing = 0, total = 0\<rparr>"
  "getProgress example_runtime (JObj []) = Inl (JsError ''features.features.length'' ''TypeError'')"
  by (simp_all add: getProgress_def example_feature_def example_runtime_def)

lemma example_tool_result_hello:
  "tool_result_line example_runtime False (JStr hello_doc) =
     ([Log [Styled Dim [Txt ''hi'']]], Done ())"
proof -
  have "unwrap example_runtime (Some hello_doc) =
      (if truthy example_runtime (JStr ''hi'') then JStr ''hi'' else JStr ''(empty)'')"
    by (rule unwrap_object [where kvs = "[(''output'', JStr ''hi'')]"])
      (simp_all add: example_gates example_parse_hello)
  then have "unwrap example_runtime (Some hello_doc) = JStr ''hi''"
    by simp
  then show ?thesis
    using tool_result_line_string [of example_runtime "JStr hello_doc" "''hi''" False]
    by simp
qed

lemma example_tool_use_ls:
  \<open>tool_use_line example_runtime ''nu'' ls_input =
     ([Log [Txt ''\<newline>'', Styled Yellow [Txt ''[tool] nu''], Txt '' '',
            Styled Dim [Txt ''{"command":"ls"}'']]], Done ())\<close>
  by (simp add: tool_use_line_def example_runtime_def example_stringify_def emit_def)

lemma runAgent_success_stream:
  \<open>runAgent example_runtime (\<lambda>params. success_stream) p d m False =
     ([Log [Txt ''\<newline>--- Agent session starting ---\<newline>''],
       Log [Styled Dim [Txt ''[system] Session s-1 initialized'']],
       Log [Styled Dim [Txt ''[system] Model: opus, Tools: '', Number (Some 2)]],
       Write ''Listing.'',
       Log [Txt ''\<newline>'', Styled Yellow [Txt ''[tool] nu''], Txt '' '',
            Styled Dim [Txt ''{"command":"ls"}'']],
       Log [Styled Dim [Txt ''hi'']],
       Log [Txt ''\<newline>'',
            Styled Green [Txt ''[result] Success - '', Number (Some 2), Txt '' turns, $'',
                          Fixed 0 4]],
       Log [Txt ''\<newline>--- Agent session ended ---\<newline>'']],
      Done True)\<close>
proof -
  have "for_await example_runtime False success_stream =
     ([Log [Styled Dim [Txt ''[system] Session s-1 initialized'']],
       Log [Styled Dim [Txt ''[system] Model: opus, Tools: '', Number (Some 2)]],
       Write ''Listing.''] @
      fst (tool_use_line example_runtime ''nu'' ls_input) @
      fst (tool_result_line example_runtime False (JStr hello_doc)) @
      [Log [Txt ''\<newline>'',
            Styled Green [Txt ''[result] Success - '', Number (Some 2), Txt '' turns, $'',
                          Fixed 0 4]]],
      Done ())"
    by (simp add: success_stream_def on_item_def on_message_def bind_def return_def emit_def
        example_tool_use_ls example_tool_result_hello)
  then have \<open>for_await example_runtime False
      ((\<lambda>params. success_stream) (query_options p d m False)) =
     ([Log [Styled Dim [Txt ''[system] Session s-1 initialized'']],
       Log [Styled Dim [Txt ''[system] Model: opus, Tools: '', Number (Some 2)]],
       Write ''Listing.'',
       Log [Txt ''\<newline>'', Styled Yellow [Txt ''[tool] nu''], Txt '' '',
            Styled Dim [Txt ''{"command":"ls"}'']],
       Log [Styled Dim [Txt ''hi'']],
       Log [Txt ''\<newline>'',
            Styled Green [Txt ''[result] Success - '', Number (Some 2), Txt '' turns, $'',
                          Fixed 0 4]]],
      Done ())\<close>
    by (simp add: example_tool_use_ls example_tool_result_hello)
  from runAgent_Done [OF this] show ?thesis by simp
qed

lemma runAgent_throwing_stream:
  "runAgent example_runtime (\<lambda>params. throwing_stream) p d m False =
     ([Log [Txt ''\<newline>--- Agent session starting ---\<newline>''], Write ''Starting.'',
       Err [Txt ''\<newline>--- Agent session failed ---''], Err [Txt ''Error:'', Txt ''socket closed'']],
      Done False)"
proof -
  have "for_await example_runtime False
      ((\<lambda>params. throwing_stream) (query_options p d m False)) =
     ([Write ''Starting.''], Raise (JsError ''socket closed'' ''Error: socket closed''))"
    by (simp add: for_await_throwing_stream)
  from runAgent_Raise [OF this] show ?thesis by (simp add: report_failure_eq)
qed

lemma example_world_simps:
  "fs_before (example_world s f1 f2) i = f1"
  "fs_after (example_world s f1 f2) i = f2"
  "agent (example_world s f1 f2) i = (\<lambda>params. s)"
  "spawn (example_world s f1 f2) command = None"
  "fs_at_start (example_world s f1 f2) = example_fs None False"
  by (simp_all add: example_world_def)

lemma example_options_simps:
  "dir (example_options bound) = ''proj''"
  "maxSessions (example_options bound) = bound"
  "verbose (example_options bound) = False"
  "model (example_options bound) = ''opus''"
  "projectSpec (example_options bound) = ''Build a CLI''"
  by (simp_all add: example_options_def)



text \<open>
  C5. When the session fails, the loop body prints the retry line, pauses 5000
  milliseconds and goes on to the next session number; it does not read the feature list
  (the result is the same whatever the file system holds after the session), so it prints
  no completion line and runs no notification. The failed session used one session
  number: the loop continues with the next one. After a session that succeeded without
  completing the list the pause is 2000 milliseconds, which is shorter.
\<close>

theorem failed_session_backs_off:
  assumes "determinePhase rt (fs_before w n) (dir opts) = (outp, Done ph)"
    and "runAgent rt (agent w n) (getPromptForPhase ph (projectSpec opts)) (dir opts)
           (model opts) (verbose opts) = (outa, Done False)"
  shows
    "session_body rt w opts n =
       (session_banner n (maxSessions opts) # outp @ [Log [formatPhase ph]] @ outa @
        [retry_line, Sleep 5000], Done Next)
     \<and> session_body rt (w\<lparr>fs_after := files\<rparr>) opts n = session_body rt w opts n
     \<and> (within_budget n (maxSessions opts) \<longrightarrow>
        sessions_from rt w opts n =
          (fst (session_body rt w opts n) @ fst (sessions_from rt w opts (Suc n)),
           snd (sessions_from rt w opts (Suc n))))
     \<and> (determinePhase rt (fs_before w' n') (dir opts') = (outp', Done ph') \<and>
        runAgent rt (agent w' n') (getPromptForPhase ph' (projectSpec opts')) (dir opts')
          (model opts') (verbose opts') = (outa', Done True) \<and>
        check_progress rt w' opts' n' = (outc, Done Next) \<longrightarrow>
        session_body rt w' opts' n' =
          (session_banner n' (maxSessions opts') # outp' @ [Log [formatPhase ph']] @ outa' @ outc @
           [Sleep 2000], Done Next))
     \<and> (2000 :: nat) < 5000"
proof (intro conjI impI)
  show body: "session_body rt w opts n =
       (session_banner n (maxSessions opts) # outp @ [Log [formatPhase ph]] @ outa @
        [retry_line, Sleep 5000], Done Next)"
    by (rule session_body_failed [OF assms])
  have "session_body rt (w\<lparr>fs_after := files\<rparr>) opts n =
       (session_banner n (maxSessions opts) # outp @ [Log [formatPhase ph]] @ outa @
        [retry_line, Sleep 5000], Done Next)"
    by (rule session_body_failed) (simp_all add: assms)
  with body show "session_body rt (w\<lparr>fs_after := files\<rparr>) opts n = session_body rt w opts n"
    by simp
  show "(2000 :: nat) < 5000"
    by simp
next
  assume "within_budget n (maxSessions opts)"
  moreover have "snd (session_body rt w opts n) = Done Next"
    by (simp add: session_body_failed [OF assms])
  ultimately show "sessions_from rt w opts n =
          (fst (session_body rt w opts n) @ fst (sessions_from rt w opts (Suc n)),
           snd (sessions_from rt w opts (Suc n)))"
    by (rule sessions_from_Next)
next
  assume a: "determinePhase rt (fs_before w' n') (dir opts') = (outp', Done ph') \<and>
        runAgent rt (agent w' n') (getPromptForPhase ph' (projectSpec opts')) (dir opts')
          (model opts') (verbose opts') = (outa', Done True) \<and>
        check_progress rt w' opts' n' = (outc, Done Next)"
  then have "session_body rt w' opts' n' =
     (session_banner n' (maxSessions opts') # outp' @ [Log [formatPhase ph']] @ outa' @ outc @
      (if (Done Next :: control outcome) = Done Next then [Sleep 2000] else []), Done Next)"
    by (intro session_body_succeeded) simp_all
  then show "session_body rt w' opts' n' =
          (session_banner n' (maxSessions opts') # outp' @ [Log [formatPhase ph']] @ outa' @ outc @
           [Sleep 2000], Done Next)"
    by simp
qed

theorem failed_session_backs_off_witness:
  \<open>session_body example_runtime
     (example_world throwing_stream (example_fs None False)
        (example_fs (Some (feature_doc True)) True))
     (example_options (Some 2)) 1 =
     ([session_banner 1 (Some 2),
       Log [Styled Yellow [Txt ''[initializer] Initializing project...'']],
       Log [Txt ''\<newline>--- Agent session starting ---\<newline>''],
       Write ''Starting.'',
       Err [Txt ''\<newline>--- Agent session failed ---''],
       Err [Txt ''Error:'', Txt ''socket closed''],
       retry_line, Sleep 5000],
      Done Next)
   \<and> snd (sessions_from example_runtime
       (example_world throwing_stream (example_fs None False)
          (example_fs (Some (feature_doc True)) True))
       (example_options (Some 2)) 1) =
     snd (sessions_from example_runtime
       (example_world throwing_stream (example_fs None False)
          (example_fs (Some (feature_doc True)) True))
       (example_options (Some 2)) 2)
   \<and> session_body example_runtime
     (example_world success_stream (example_fs (Some (feature_doc False)) True)
        (example_fs (Some (feature_doc False)) True))
     (example_options (Some 2)) 1 =
     ([session_banner 1 (Some 2),
       Log [Styled Green [Txt ''[coder] Implementing plan...'']],
       Log [Txt ''\<newline>--- Agent session starting ---\<newline>''],
       Log [Styled Dim [Txt ''[system] Session s-1 initialized'']],
       Log [Styled Dim [Txt ''[system] Model: opus, Tools: '', Number (Some 2)]],
       Write ''Listing.'',
       Log [Txt ''\<newline>'', Styled Yellow [Txt ''[tool] nu''], Txt '' '',
            Styled Dim [Txt ''{"command":"ls"}'']],
       Log [Styled Dim [Txt ''hi'']],
       Log [Txt ''\<newline>'',
            Styled Green [Txt ''[result] Success - '', Number (Some 2), Txt '' turns, $'',
                          Fixed 0 4]],
       Log [Txt ''\<newline>--- Agent session ended ---\<newline>''],
       progress_line \<lparr>passing = 0, total = 1\<rparr>,
       Sleep 2000],
      Done Next)\<close>
proof -
  let ?w = "example_world throwing_stream (example_fs None False)
        (example_fs (Some (feature_doc True)) True)"
  let ?w' = "example_world success_stream (example_fs (Some (feature_doc False)) True)
        (example_fs (Some (feature_doc False)) True)"
  let ?opts = "example_options (Some 2)"
  have det: "determinePhase example_runtime (fs_before ?w 1) (dir ?opts) =
      ([], Done initializer)"
    by (simp add: example_world_simps example_options_simps example_determinePhase)
  have run: "runAgent example_runtime (agent ?w 1)
      (getPromptForPhase initializer (projectSpec ?opts)) (dir ?opts) (model ?opts)
      (verbose ?opts) =
      (fst (runAgent example_runtime (\<lambda>params. throwing_stream) ''p'' ''proj'' ''opus'' False),
       Done False)"
    by (simp add: example_world_simps example_options_simps runAgent_throwing_stream)
  have det': "determinePhase example_runtime (fs_before ?w' 1) (dir ?opts) = ([], Done coder)"
    by (simp add: example_world_simps example_options_simps example_determinePhase)
  have run': "runAgent example_runtime (agent ?w' 1)
      (getPromptForPhase coder (projectSpec ?opts)) (dir ?opts) (model ?opts) (verbose ?opts) =
      (fst (runAgent example_runtime (\<lambda>params. success_stream) ''p'' ''proj'' ''opus'' False),
       Done True)"
    by (simp add: example_world_simps example_options_simps runAgent_success_stream)
  have rd': "readFeatureList example_runtime (fs_after ?w' 1) (dir ?opts) =
      ([], Done (JObj [(''features'', JArr [example_feature False])]))"
    by (simp add: example_world_simps example_options_simps example_readFeatureList)
  have cp': "check_progress example_runtime ?w' ?opts 1 =
      ([progress_line \<lparr>passing = 0, total = 1\<rparr>], Done Next)"
    by (simp add: check_progress_cases [OF rd'] example_getProgress del: One_nat_def)
  note t = failed_session_backs_off [OF det run, where w' = ?w' and n' = 1 and opts' = ?opts
      and ph' = coder and outp' = "[]" and outc = "[progress_line \<lparr>passing = 0, total = 1\<rparr>]"
      and outa' = "fst (runAgent example_runtime (\<lambda>params. success_stream) ''p'' ''proj''
                  ''opus'' False)"]
  have a: "session_body example_runtime ?w ?opts 1 =
       (session_banner 1 (maxSessions ?opts) # [] @ [Log [formatPhase initializer]] @
        fst (runAgent example_runtime (\<lambda>params. throwing_stream) ''p'' ''proj'' ''opus'' False) @
        [retry_line, Sleep 5000], Done Next)"
    by (rule t [THEN conjunct1])
  have "sessions_from example_runtime ?w ?opts 1 =
          (fst (session_body example_runtime ?w ?opts 1) @
           fst (sessions_from example_runtime ?w ?opts (Suc 1)),
           snd (sessions_from example_runtime ?w ?opts (Suc 1)))"
    by (rule t [THEN conjunct2, THEN conjunct2, THEN conjunct1, THEN mp])
      (simp add: within_budget_def example_options_simps)
  then have b: "snd (sessions_from example_runtime ?w ?opts 1) =
      snd (sessions_from example_runtime ?w ?opts 2)"
    by (simp del: One_nat_def add: numeral_2_eq_2)
  have c: "session_body example_runtime ?w' ?opts 1 =
          (session_banner 1 (maxSessions ?opts) # [] @ [Log [formatPhase coder]] @
           fst (runAgent example_runtime (\<lambda>params. success_stream) ''p'' ''proj'' ''opus''
                  False) @
           [progress_line \<lparr>passing = 0, total = 1\<rparr>] @ [Sleep 2000], Done Next)"
    by (rule t [THEN conjunct2, THEN conjunct2, THEN conjunct2, THEN conjunct1, THEN mp])
      (intro conjI det' run' cp')
  from a b c show ?thesis
    by (simp add: example_options_simps runAgent_success_stream runAgent_throwing_stream
        del: One_nat_def)
qed

lemma parseCliArgs_options:
  "\<not> values_help vals \<Longrightarrow> positionals \<noteq> [] \<Longrightarrow>
   parseCliArgs rt (Inr (vals, positionals)) =
     ([], Done \<lparr>projectSpec = join '' '' positionals, dir = resolve rt [values_dir vals],
                maxSessions = parseInt rt (values_max_sessions vals),
                verbose = values_verbose vals, model = values_model vals\<rparr>)"
  by (simp add: parseCliArgs_def return_def)

text \<open>
  C10. When the session bound read from the command line is \<^verbatim>\<open>NaN\<close> or an integer
  below 1, the loop runs no session: the program prints the start banner, the directory,
  the model and the bound (and the verbose line when asked), then the finish banner, and
  returns; it resolves no phase, starts no agent session and does not pause, whatever the
  world holds.
\<close>

theorem no_session_without_budget:
  assumes "\<not> values_help vals" and "positionals \<noteq> []"
    and "existsSync (fs_at_start w) (resolve rt [values_dir vals])"
    and "parseInt rt (values_max_sessions vals) = None \<or>
         (\<exists>bound. parseInt rt (values_max_sessions vals) = Some bound \<and> bound < 1)"
  shows
    "program rt w (Inr (vals, positionals)) =
       ([Log [Styled Cyan [Txt ''=== Agent Loop Starting ==='']],
         Log [Txt (''Directory: '' @ resolve rt [values_dir vals])],
         Log [Txt (''Model: '' @ values_model vals)],
         Log [Txt ''Max sessions: '', Number (parseInt rt (values_max_sessions vals))]] @
        (if values_verbose vals then [Log [Txt ''Verbose mode: enabled'']] else []) @
        [Log [Styled Cyan [Txt ''=== Agent loop finished ==='']]],
        Done ())
     \<and> sessions_from rt w
         \<lparr>projectSpec = join '' '' positionals, dir = resolve rt [values_dir vals],
          maxSessions = parseInt rt (values_max_sessions vals),
          verbose = values_verbose vals, model = values_model vals\<rparr> 1 = ([], Done ())"
proof -
  let ?opts = "\<lparr>projectSpec = join '' '' positionals, dir = resolve rt [values_dir vals],
          maxSessions = parseInt rt (values_max_sessions vals),
          verbose = values_verbose vals, model = values_model vals\<rparr>"
  from assms(4) have "\<not> within_budget 1 (maxSessions ?opts)"
    by (auto simp: within_budget_def)
  then have loop: "sessions_from rt w ?opts 1 = ([], Done ())"
    by (rule sessions_from_stop)
  have "main rt w (Inr (vals, positionals)) =
       ([Log [Styled Cyan [Txt ''=== Agent Loop Starting ==='']],
         Log [Txt (''Directory: '' @ resolve rt [values_dir vals])],
         Log [Txt (''Model: '' @ values_model vals)],
         Log [Txt ''Max sessions: '', Number (parseInt rt (values_max_sessions vals))]] @
        (if values_verbose vals then [Log [Txt ''Verbose mode: enabled'']] else []) @
        [Log [Styled Cyan [Txt ''=== Agent loop finished ==='']]],
        Done ())"
    using assms(3)
    by (simp add: main_def parseCliArgs_options [OF assms(1,2)] loop bind_def return_def
        emit_def del: One_nat_def)
  then have "program rt w (Inr (vals, positionals)) =
       ([Log [Styled Cyan [Txt ''=== Agent Loop Starting ==='']],
         Log [Txt (''Directory: '' @ resolve rt [values_dir vals])],
         Log [Txt (''Model: '' @ values_model vals)],
         Log [Txt ''Max sessions: '', Number (parseInt rt (values_max_sessions vals))]] @
        (if values_verbose vals then [Log [Txt ''Verbose mode: enabled'']] else []) @
        [Log [Styled Cyan [Txt ''=== Agent loop finished ==='']]],
        Done ())"
    by (simp add: program_def catch_def)
  with loop show ?thesis by simp
qed

lemma example_parseInt_values:
  "parseInt example_runtime ''abc'' = None"
  "parseInt example_runtime ''0'' = Some 0"
  "parseInt example_runtime ''-3'' = Some (- 3)"
  by (simp_all add: example_runtime_def example_parseInt_def is_digit_def decimal_def
      digit_value_def Let_def)

theorem no_session_without_budget_witness:
  "program example_runtime
     (example_world success_stream (example_fs None False) (example_fs None False))
     (Inr (example_values ''abc'', [''Build'', ''a'', ''CLI''])) =
     ([Log [Styled Cyan [Txt ''=== Agent Loop Starting ==='']],
       Log [Txt ''Directory: proj''], Log [Txt ''Model: opus''],
       Log [Txt ''Max sessions: '', Number None],
       Log [Styled Cyan [Txt ''=== Agent loop finished ==='']]],
      Done ())
   \<and> program example_runtime
     (example_world success_stream (example_fs None False) (example_fs None False))
     (Inr (example_values ''0'', [''Build'', ''a'', ''CLI''])) =
     ([Log [Styled Cyan [Txt ''=== Agent Loop Starting ==='']],
       Log [Txt ''Directory: proj''], Log [Txt ''Model: opus''],
       Log [Txt ''Max sessions: '', Number (Some 0)],
       Log [Styled Cyan [Txt ''=== Agent loop finished ==='']]],
      Done ())"
proof -
  let ?w = "example_world success_stream (example_fs None False) (example_fs None False)"
  have ex: "existsSync (fs_at_start ?w) (resolve example_runtime [values_dir (example_values b)])"
    for b
    by (simp add: existsSync_def example_world_simps example_values_def example_resolve
        example_fs_simps)
  have nan: "parseInt example_runtime (values_max_sessions (example_values ''abc'')) = None \<or>
      (\<exists>bound. parseInt example_runtime (values_max_sessions (example_values ''abc'')) =
         Some bound \<and> bound < 1)"
    by (simp add: example_values_def example_parseInt_values)
  have zero: "parseInt example_runtime (values_max_sessions (example_values ''0'')) = None \<or>
      (\<exists>bound. parseInt example_runtime (values_max_sessions (example_values ''0'')) =
         Some bound \<and> bound < 1)"
    by (simp add: example_values_def example_parseInt_values)
  have h: "\<not> values_help (example_values b)" for b
    by (simp add: example_values_def)
  have p: "[''Build'', ''a'', ''CLI''] \<noteq> []"
    by simp
  from no_session_without_budget [OF h p ex nan, THEN conjunct1]
    no_session_without_budget [OF h p ex zero, THEN conjunct1]
  show ?thesis
    by (simp add: example_values_def example_resolve example_parseInt_values)
qed

end
